(* ===== verification/Prelude.thy ===== *)
theory Prelude
  imports Main "HOL-Library.Multiset" "HOL-Library.List_Lexorder"
    "HOL-Library.Product_Lexorder" "HOL-Library.Sublist"
begin

text \<open>
  Shared vocabulary of the development: the types that name JavaScript values of the
  modelled program, the theorem collections the component theories fill, and generic
  lemmas on lists and characters used by more than one component.
\<close>

named_theorems model_defs
  "definitions of the model that concrete evaluations unfold"

type_synonym js_string = string
  \<comment> \<open>a JavaScript string, restricted to code units U+0000..U+00FF (one \<open>char\<close> each)\<close>
type_synonym url = js_string

text \<open>The numeric code of a character, as JavaScript's \<open>charCodeAt\<close> reads it.\<close>

abbreviation code :: "char \<Rightarrow> nat" where
  "code c \<equiv> of_char c"

subsection \<open>Three-way comparison\<close>

text \<open>
  A JavaScript comparator returns a number whose sign orders its arguments. The
  comparators of this program compare a key in a linear order and return -1, 0 or 1;
  \<open>compare_by\<close> is that interface between the comparator (\<open>Collation\<close>) and the sort
  that uses it (\<open>JsSort\<close>).
\<close>

definition compare_by :: "'k::linorder \<Rightarrow> 'k \<Rightarrow> int" where
  "compare_by x y = (if x < y then -1 else if x = y then 0 else 1)"

text \<open>A list strictly increasing between neighbours: a check that evaluates in linear
  time, and implies that the list is strictly sorted (\<open>chain_lt_sorted\<close>).\<close>

fun chain_lt :: "'a::linorder list \<Rightarrow> bool" where
  "chain_lt (x # y # zs) = (x < y \<and> chain_lt (y # zs))"
| "chain_lt _ = True"

lemma compare_by_le_0 [simp]: "compare_by x y \<le> 0 \<longleftrightarrow> x \<le> y"
  by (auto simp: compare_by_def)

lemma compare_by_gt_0 [simp]: "0 < compare_by x y \<longleftrightarrow> y < x"
  by (auto simp: compare_by_def)

lemma compare_by_ge_0 [simp]: "0 \<le> compare_by x y \<longleftrightarrow> y \<le> x"
  by (auto simp: compare_by_def)

lemma compare_by_eq_0 [simp]: "compare_by x y = 0 \<longleftrightarrow> x = y"
  by (auto simp: compare_by_def)

lemma compare_by_swap: "compare_by y x = - compare_by x y"
  by (auto simp: compare_by_def)

subsection \<open>Suffixes\<close>

lemma suffix_iff_drop:
  "suffix xs ys \<longleftrightarrow> length xs \<le> length ys \<and> drop (length ys - length xs) ys = xs"
proof
  assume "suffix xs ys"
  then obtain zs where "ys = zs @ xs" by (auto simp: suffix_def)
  then show "length xs \<le> length ys \<and> drop (length ys - length xs) ys = xs" by simp
next
  assume "length xs \<le> length ys \<and> drop (length ys - length xs) ys = xs"
  then have "ys = take (length ys - length xs) ys @ xs" by (metis append_take_drop_id)
  then show "suffix xs ys" unfolding suffix_def by blast
qed

lemma suffix_length: "suffix xs ys \<Longrightarrow> length xs \<le> length ys"
  by (auto simp: suffix_def)

subsection \<open>Characters\<close>

lemma char_eq_iff_code: "(a = b) \<longleftrightarrow> code a = code b"
  by (metis char_of_char)

subsection \<open>Comparisons through a strictly monotone map\<close>

text \<open>Two comparisons agree when their keys stand in the same order; a map that is strictly
  monotone on a set keeps the lexicographic order of lists over that set.\<close>

lemma compare_by_cong:
  "(x < y \<longleftrightarrow> x' < y') \<Longrightarrow> (x = y \<longleftrightarrow> x' = y') \<Longrightarrow> compare_by x y = compare_by x' y'"
  by (simp add: compare_by_def)

lemma mono_on_eq:
  fixes f :: "'a::linorder \<Rightarrow> 'b::linorder"
  assumes "\<forall>x\<in>A. \<forall>y\<in>A. f x < f y \<longleftrightarrow> x < y" "x \<in> A" "y \<in> A"
  shows "f x = f y \<longleftrightarrow> x = y"
  using assms by (metis less_irrefl linorder_neqE)

lemma less_append_same: "(p @ xs < p @ ys) \<longleftrightarrow> xs < (ys :: 'a::linorder list)"
  by (induction p) auto

lemma map_less_map_mono:
  fixes f :: "'a::linorder \<Rightarrow> 'b::linorder"
  assumes "\<forall>x\<in>A. \<forall>y\<in>A. f x < f y \<longleftrightarrow> x < y"
  shows "set xs \<subseteq> A \<Longrightarrow> set ys \<subseteq> A \<Longrightarrow> map f xs < map f ys \<longleftrightarrow> xs < ys"
proof (induction xs arbitrary: ys)
  case Nil
  then show ?case by (cases ys) auto
next
  case (Cons x xs)
  then show ?case
    using mono_on_eq [OF assms] by (cases ys) (auto simp: assms)
qed

lemma map_eq_map_mono:
  fixes f :: "'a::linorder \<Rightarrow> 'b::linorder"
  assumes "\<forall>x\<in>A. \<forall>y\<in>A. f x < f y \<longleftrightarrow> x < y"
  shows "set xs \<subseteq> A \<Longrightarrow> set ys \<subseteq> A \<Longrightarrow> map f xs = map f ys \<longleftrightarrow> xs = ys"
proof (induction xs arbitrary: ys)
  case Nil
  then show ?case by (cases ys) auto
next
  case (Cons x xs)
  then show ?case
    using mono_on_eq [OF assms] by (cases ys) auto
qed


subsection \<open>Sorted lists and tables\<close>

lemma chain_lt_sorted: "chain_lt xs \<Longrightarrow> sorted_wrt (<) xs"
proof (induction xs rule: chain_lt.induct)
  case (1 x y zs)
  then show ?case by (auto intro: less_trans)
qed simp_all

lemma sorted_wrt_mono_iff:
  assumes "sorted_wrt (<) xs" and "sorted_wrt (<) (map f xs)"
  shows "\<forall>x\<in>set xs. \<forall>y\<in>set xs. (f x :: 'b::linorder) < f y \<longleftrightarrow> x < (y :: 'a::linorder)"
proof (intro ballI)
  fix x y assume "x \<in> set xs" "y \<in> set xs"
  then obtain i j where ij: "i < length xs" "j < length xs" "xs ! i = x" "xs ! j = y"
    by (auto simp: in_set_conv_nth)
  consider "i < j" | "i = j" | "j < i" by arith
  then show "f x < f y \<longleftrightarrow> x < y"
  proof cases
    case 1
    then have "x < y" "f x < f y"
      using ij sorted_wrt_nth_less [OF assms(1) 1] sorted_wrt_nth_less [OF assms(2) 1] by auto
    then show ?thesis by simp
  next
    case 2
    then show ?thesis using ij by simp
  next
    case 3
    then have "y < x" "f y < f x"
      using ij sorted_wrt_nth_less [OF assms(1) 3] sorted_wrt_nth_less [OF assms(2) 3] by auto
    then show ?thesis by (meson less_asym)
  qed
qed

lemma nth_concat_rows:
  assumes "list_all (\<lambda>r. length r = k) rows" and "n < k * length rows"
  shows "concat rows ! n = rows ! (n div k) ! (n mod k)"
  using assms
proof (induction rows arbitrary: n)
  case (Cons r rows)
  show ?case
  proof (cases "n < k")
    case True
    with Cons.prems show ?thesis by (simp add: nth_append)
  next
    case False
    with Cons.prems have k: "0 < k" "k \<le> n" "n - k < k * length rows" by auto
    have "n div k = Suc ((n - k) div k)" and "n mod k = (n - k) mod k"
      using k by (simp_all add: le_div_geq le_mod_geq)
    with Cons.prems Cons.IH [OF _ k(3)] k show ?thesis
      by (simp add: nth_append)
  qed
qed simp

lemma length_concat_rows: "list_all (\<lambda>r. length r = k) rows \<Longrightarrow> length (concat rows) = k * length rows"
  by (induction rows) auto


lemma map_fixed_elem: "map f xs = xs \<Longrightarrow> x \<in> set xs \<Longrightarrow> f x = x"
  by (induction xs) auto

lemma sum_list_Suc_shift: "(\<Sum>x\<leftarrow>xs. Suc (f x)) = length xs + (\<Sum>x\<leftarrow>xs. f x)"
  by (induction xs) simp_all

end
