(* ===== verification/JsRegex.thy ===== *)
theory JsRegex
  imports Prelude
begin

text \<open>
  The regular expression literal \<^verbatim>\<open>/\.(png|jpe?g|gif|webp|avif|svg)$/i\<close> of
  \<^verbatim>\<open>src/docs/.vitepress/config.mts\<close> (line 24) and \<^verbatim>\<open>RegExp.prototype.test\<close>, after
  the ECMAScript pattern semantics: a term of the pattern is a matcher that takes the input,
  a position and a continuation; \<open>test\<close> tries every start position from 0 to the length
  of the input (the pattern has no \<^verbatim>\<open>^\<close>), and \<^verbatim>\<open>$\<close> without the \<^verbatim>\<open>m\<close> flag
  succeeds only at the end of the input. The \<^verbatim>\<open>i\<close> flag compares characters after
  ECMAScript's \<open>Canonicalize\<close> (simple upper-casing that never maps a non-ASCII
  character to an ASCII one).
\<close>

subsection \<open>Case folding\<close>

text \<open>
  \<open>Canonicalize\<close> in non-Unicode mode on the code units U+0000..U+00FF: \<open>a\<close>..\<open>z\<close> and
  \<open>\<agrave>\<close>..\<open>\<thorn>\<close> (without \<open>\<div>\<close>) go to upper case; \<open>\<mu>\<close> (U+00B5) and \<open>\<yacute>\<close>-diaeresis
  (U+00FF) have upper-case forms outside the range that no other character of the range
  shares, so they are represented by themselves; every other character is its own
  canonical form. The result is the code unit of the canonical character.
\<close>

definition canonicalize :: "char \<Rightarrow> nat" where
  "canonicalize c =
     (let n = code c in
      if (97 \<le> n \<and> n \<le> 122) \<or> (224 \<le> n \<and> n \<le> 254 \<and> n \<noteq> 247) then n - 32 else n)"

subsection \<open>Patterns and matchers\<close>

datatype regex =
    Eps                         \<comment> \<open>the empty alternative\<close>
  | Lit char                    \<comment> \<open>a pattern character or an escaped one such as \<^verbatim>\<open>\.\<close>\<close>
  | Cat regex regex             \<comment> \<open>Alternative :: Alternative Term\<close>
  | Alt regex regex             \<comment> \<open>Disjunction :: Alternative | Disjunction\<close>
  | Opt regex                   \<comment> \<open>the quantifier \<^verbatim>\<open>?\<close>\<close>
  | Group regex                 \<comment> \<open>a capturing group \<^verbatim>\<open>( ... )\<close>\<close>
  | EndAnchor                   \<comment> \<open>the assertion \<^verbatim>\<open>$\<close>\<close>

record js_regexp =
  pattern :: regex
  ignore_case :: bool

definition char_eq :: "bool \<Rightarrow> char \<Rightarrow> char \<Rightarrow> bool" where
  "char_eq ic a b = (if ic then canonicalize a = canonicalize b else a = b)"

text \<open>
  \<open>rx_match ic s r k i\<close>: the matcher of \<open>r\<close> on input \<open>s\<close> at position \<open>i\<close> with
  continuation \<open>k\<close>. Captures are not recorded: \<open>test\<close> only asks whether a match exists.
\<close>

primrec rx_match :: "bool \<Rightarrow> js_string \<Rightarrow> regex \<Rightarrow> (nat \<Rightarrow> bool) \<Rightarrow> nat \<Rightarrow> bool" where
  "rx_match ic s Eps k i = k i"
| "rx_match ic s (Lit c) k i = (i < length s \<and> char_eq ic (s ! i) c \<and> k (Suc i))"
| "rx_match ic s (Cat r1 r2) k i = rx_match ic s r1 (rx_match ic s r2 k) i"
| "rx_match ic s (Alt r1 r2) k i = (rx_match ic s r1 k i \<or> rx_match ic s r2 k i)"
| "rx_match ic s (Opt r) k i = (rx_match ic s r k i \<or> k i)"
| "rx_match ic s (Group r) k i = rx_match ic s r k i"
| "rx_match ic s EndAnchor k i = (i = length s \<and> k i)"

text \<open>
  \<open>RegExpBuiltinExec\<close> on a regular expression without the \<^verbatim>\<open>g\<close> or \<^verbatim>\<open>y\<close> flag:
  \<open>lastIndex\<close> starts at 0; while no match has been found, the loop returns \<^verbatim>\<open>null\<close>
  once \<open>lastIndex\<close> has passed the length of the input, and otherwise runs the matcher at
  \<open>lastIndex\<close> with the terminal continuation and, on failure, advances \<open>lastIndex\<close> by
  one code unit (\<open>AdvanceStringIndex\<close> without the \<^verbatim>\<open>u\<close> flag). The loop is
  written as it is, with no termination argument: \<open>None\<close> would be a loop that does not
  end; \<open>Some None\<close> is \<^verbatim>\<open>null\<close> and \<open>Some (Some i)\<close> a match found at \<open>lastIndex = i\<close>.
  \<^verbatim>\<open>RegExp.prototype.test\<close> asks whether the result is not \<^verbatim>\<open>null\<close>.
\<close>

partial_function (option) exec_loop :: "js_regexp \<Rightarrow> js_string \<Rightarrow> nat \<Rightarrow> nat option option" where
  "exec_loop re s i =
     (if length s < i then Some None
      else if rx_match (ignore_case re) s (pattern re) (\<lambda>_. True) i then Some (Some i)
      else exec_loop re s (Suc i))"

definition regexp_exec :: "js_regexp \<Rightarrow> js_string \<Rightarrow> nat option option" where
  "regexp_exec re s = exec_loop re s 0"

definition regexp_test :: "js_regexp \<Rightarrow> js_string \<Rightarrow> bool" where
  "regexp_test re s = (case regexp_exec re s of Some (Some _) \<Rightarrow> True | _ \<Rightarrow> False)"

text \<open>A run of pattern characters, such as \<^verbatim>\<open>png\<close>.\<close>

fun word :: "char list \<Rightarrow> regex" where
  "word [] = Eps"
| "word (c # cs) = Cat (Lit c) (word cs)"

text \<open>The literal \<^verbatim>\<open>/\.(png|jpe?g|gif|webp|avif|svg)$/i\<close>: the escaped dot, the
  capturing group of six alternatives, the end anchor, and the flag \<^verbatim>\<open>i\<close>.\<close>

definition image_alternatives :: regex where
  "image_alternatives =
     Alt (word ''png'')
    (Alt (Cat (Cat (word ''jp'') (Opt (Lit CHR ''e''))) (Lit CHR ''g''))
    (Alt (word ''gif'')
    (Alt (word ''webp'')
    (Alt (word ''avif'') (word ''svg'')))))"

definition image_regexp :: js_regexp where
  "image_regexp =
     \<lparr>pattern = Cat (Cat (Lit CHR ''.'') (Group image_alternatives)) EndAnchor,
      ignore_case = True\<rparr>"

subsection \<open>What the pattern accepts\<close>

text \<open>
  The allow-list of the specification (section 3): a name is an image name when it ends,
  case-insensitively, with a dot and one of these extensions.
\<close>

definition image_extensions :: "string list" where
  "image_extensions = [''png'', ''jpg'', ''jpeg'', ''gif'', ''webp'', ''avif'', ''svg'']"

definition has_image_extension :: "js_string \<Rightarrow> bool" where
  "has_image_extension s \<longleftrightarrow>
     (\<exists>e\<in>set image_extensions. suffix (map canonicalize (CHR ''.'' # e)) (map canonicalize s))"

text \<open>
  Analysis functions for the proofs: \<open>fits ic s i w\<close> says that the word \<open>w\<close>
  matches the input at position \<open>i\<close> character by character; \<open>rx_words r\<close> lists the
  words of an anchor-free pattern.
\<close>

fun fits :: "bool \<Rightarrow> js_string \<Rightarrow> nat \<Rightarrow> char list \<Rightarrow> bool" where
  "fits ic s i [] = True"
| "fits ic s i (c # w) = (i < length s \<and> char_eq ic (s ! i) c \<and> fits ic s (Suc i) w)"

fun anchor_free :: "regex \<Rightarrow> bool" where
  "anchor_free EndAnchor = False"
| "anchor_free (Cat r1 r2) = (anchor_free r1 \<and> anchor_free r2)"
| "anchor_free (Alt r1 r2) = (anchor_free r1 \<and> anchor_free r2)"
| "anchor_free (Opt r) = anchor_free r"
| "anchor_free (Group r) = anchor_free r"
| "anchor_free _ = True"

fun rx_words :: "regex \<Rightarrow> char list list" where
  "rx_words Eps = [[]]"
| "rx_words (Lit c) = [[c]]"
| "rx_words (Cat r1 r2) = concat (map (\<lambda>u. map ((@) u) (rx_words r2)) (rx_words r1))"
| "rx_words (Alt r1 r2) = rx_words r1 @ rx_words r2"
| "rx_words (Opt r) = rx_words r @ [[]]"
| "rx_words (Group r) = rx_words r"
| "rx_words EndAnchor = []"

text \<open>
  The declarative semantics of patterns: \<open>rx_sem ic s r i j\<close> says that \<open>r\<close> matches the
  input \<open>s\<close> from position \<open>i\<close> to position \<open>j\<close>, one rule per construct of the
  pattern grammar, with no order among the alternatives.
\<close>

inductive rx_sem :: "bool \<Rightarrow> js_string \<Rightarrow> regex \<Rightarrow> nat \<Rightarrow> nat \<Rightarrow> bool" for ic s where
  sem_eps: "rx_sem ic s Eps i i"
| sem_lit: "i < length s \<Longrightarrow> char_eq ic (s ! i) c \<Longrightarrow> rx_sem ic s (Lit c) i (Suc i)"
| sem_cat: "rx_sem ic s r1 i j \<Longrightarrow> rx_sem ic s r2 j l \<Longrightarrow> rx_sem ic s (Cat r1 r2) i l"
| sem_alt1: "rx_sem ic s r1 i j \<Longrightarrow> rx_sem ic s (Alt r1 r2) i j"
| sem_alt2: "rx_sem ic s r2 i j \<Longrightarrow> rx_sem ic s (Alt r1 r2) i j"
| sem_opt_some: "rx_sem ic s r i j \<Longrightarrow> rx_sem ic s (Opt r) i j"
| sem_opt_none: "rx_sem ic s (Opt r) i i"
| sem_group: "rx_sem ic s r i j \<Longrightarrow> rx_sem ic s (Group r) i j"
| sem_end: "i = length s \<Longrightarrow> rx_sem ic s EndAnchor i i"

code_pred rx_sem .

subsection \<open>The loop of \<open>RegExpBuiltinExec\<close>\<close>

text \<open>The loop ends: by induction on the distance of \<open>lastIndex\<close> to the end of the input,
  it returns the first start position at which the matcher succeeds, or \<^verbatim>\<open>null\<close>.\<close>

lemma exec_loop_find:
  "exec_loop re s i = Some (find (rx_match (ignore_case re) s (pattern re) (\<lambda>_. True)) [i..<Suc (length s)])"
proof (induction "Suc (length s) - i" arbitrary: i)
  case 0
  then show ?case by (simp add: exec_loop.simps [of re s i])
next
  case (Suc n)
  then have "i \<le> length s" and "n = Suc (length s) - Suc i" by arith+
  with Suc.hyps(1) [of "Suc i"] show ?case
    by (simp add: exec_loop.simps [of re s i] upt_conv_Cons del: upt_Suc)
qed

lemma regexp_test_list_ex:
  "regexp_test re s \<longleftrightarrow> list_ex (rx_match (ignore_case re) s (pattern re) (\<lambda>_. True)) [0..<Suc (length s)]"
proof -
  let ?P = "rx_match (ignore_case re) s (pattern re) (\<lambda>_. True)"
  have "regexp_test re s \<longleftrightarrow> find ?P [0..<Suc (length s)] \<noteq> None"
    by (simp add: regexp_test_def regexp_exec_def exec_loop_find split: option.split del: upt_Suc)
  then show ?thesis by (simp add: find_None_iff list_ex_iff atLeast0LessThan lessThan_iff Bex_def del: upt_Suc)
qed

subsection \<open>The matcher on anchor-free patterns\<close>

lemma fits_append: "fits ic s i (u @ v) \<longleftrightarrow> fits ic s i u \<and> fits ic s (i + length u) v"
  by (induction u arbitrary: i) auto

lemma fits_bound: "fits ic s i w \<Longrightarrow> i \<le> length s \<Longrightarrow> i + length w \<le> length s"
proof (induction w arbitrary: i)
  case (Cons c w)
  from Cons.prems have "i < length s" and "fits ic s (Suc i) w" by simp_all
  then have "Suc i + length w \<le> length s" using Cons.IH[of "Suc i"] by simp
  then show ?case by simp
qed simp

lemma fits_canon: "i \<le> length s \<Longrightarrow> fits True s i w \<longleftrightarrow>
    i + length w \<le> length s \<and> map canonicalize (take (length w) (drop i s)) = map canonicalize w"
proof (induction w arbitrary: i)
  case Nil
  then show ?case by simp
next
  case (Cons c w)
  show ?case
  proof (cases "i < length s")
    case True
    then have "drop i s = s ! i # drop (Suc i) s" by (simp add: Cons_nth_drop_Suc)
    with True Cons.IH[of "Suc i"] show ?thesis by (auto simp: char_eq_def)
  next
    case False
    then show ?thesis by simp
  qed
qed

lemma rx_match_words:
  "anchor_free r \<Longrightarrow>
   rx_match ic s r k i \<longleftrightarrow> (\<exists>w\<in>set (rx_words r). fits ic s i w \<and> k (i + length w))"
proof (induction r arbitrary: k i)
  case (Cat r1 r2)
  then have "rx_match ic s (Cat r1 r2) k i \<longleftrightarrow>
      (\<exists>u\<in>set (rx_words r1). fits ic s i u \<and>
         (\<exists>v\<in>set (rx_words r2). fits ic s (i + length u) v \<and> k (i + length u + length v)))"
    by simp
  also have "\<dots> \<longleftrightarrow> (\<exists>w\<in>set (rx_words (Cat r1 r2)). fits ic s i w \<and> k (i + length w))"
    by (auto simp: fits_append add.assoc)
  finally show ?case .
qed auto

lemma test_end_anchored:
  assumes "anchor_free r"
  shows "list_ex (rx_match ic s (Cat r EndAnchor) (\<lambda>_. True)) [0..<Suc (length s)] \<longleftrightarrow>
         (\<exists>w\<in>set (rx_words r). length w \<le> length s \<and> fits ic s (length s - length w) w)"
proof -
  have eq: "rx_match ic s (Cat r EndAnchor) (\<lambda>_. True) i \<longleftrightarrow>
      (\<exists>w\<in>set (rx_words r). fits ic s i w \<and> i + length w = length s)" for i
    using assms by (simp add: rx_match_words)
  show ?thesis
  proof
    assume "list_ex (rx_match ic s (Cat r EndAnchor) (\<lambda>_. True)) [0..<Suc (length s)]"
    then obtain i w where "w \<in> set (rx_words r)" "fits ic s i w" "i + length w = length s"
      unfolding list_ex_iff eq by blast
    then show "\<exists>w\<in>set (rx_words r). length w \<le> length s \<and> fits ic s (length s - length w) w"
      by (metis add_diff_cancel_right' le_add2)
  next
    assume "\<exists>w\<in>set (rx_words r). length w \<le> length s \<and> fits ic s (length s - length w) w"
    then obtain w where "w \<in> set (rx_words r)" "length w \<le> length s"
        "fits ic s (length s - length w) w" by blast
    then show "list_ex (rx_match ic s (Cat r EndAnchor) (\<lambda>_. True)) [0..<Suc (length s)]"
      unfolding list_ex_iff eq by (intro bexI[of _ "length s - length w"]) auto
  qed
qed

lemma image_words:
  "set (rx_words (Cat (Lit CHR ''.'') (Group image_alternatives))) =
   (\<lambda>e. CHR ''.'' # e) ` set image_extensions"
  by (simp add: image_alternatives_def image_extensions_def insert_commute)

lemma anchor_free_image: "anchor_free (Cat (Lit CHR ''.'') (Group image_alternatives))"
  by (simp add: image_alternatives_def)

lemma fits_suffix:
  assumes "length w \<le> length s"
  shows "fits True s (length s - length w) w \<longleftrightarrow>
         suffix (map canonicalize w) (map canonicalize s)"
proof -
  have "take (length w) (drop (length s - length w) s) = drop (length s - length w) s"
    using assms by (simp add: take_all)
  then show ?thesis
    using assms by (simp add: fits_canon suffix_iff_drop drop_map)
qed

theorem image_regexp_test_iff:
  "regexp_test image_regexp s \<longleftrightarrow> has_image_extension s"
proof -
  have "regexp_test image_regexp s \<longleftrightarrow>
        (\<exists>w\<in>set (rx_words (Cat (Lit CHR ''.'') (Group image_alternatives))).
            length w \<le> length s \<and> fits True s (length s - length w) w)"
    unfolding regexp_test_list_ex image_regexp_def js_regexp.simps
    by (rule test_end_anchored [OF anchor_free_image])
  also have "\<dots> \<longleftrightarrow> (\<exists>w\<in>set (rx_words (Cat (Lit CHR ''.'') (Group image_alternatives))).
            suffix (map canonicalize w) (map canonicalize s))"
    by (metis fits_suffix suffix_length length_map)
  also have "\<dots> \<longleftrightarrow> has_image_extension s"
    unfolding image_words has_image_extension_def by blast
  finally show ?thesis .
qed

subsection \<open>The matcher against the declarative semantics\<close>

text \<open>The continuation-passing matcher succeeds exactly when some end position of a
  declarative match satisfies the continuation: backtracking over the alternatives and the
  optional term loses no match and adds none.\<close>

inductive_simps rx_sem_Eps: "rx_sem ic s Eps i j"
inductive_simps rx_sem_Lit: "rx_sem ic s (Lit c) i j"
inductive_simps rx_sem_Cat: "rx_sem ic s (Cat r1 r2) i j"
inductive_simps rx_sem_Alt: "rx_sem ic s (Alt r1 r2) i j"
inductive_simps rx_sem_Opt: "rx_sem ic s (Opt r) i j"
inductive_simps rx_sem_Group: "rx_sem ic s (Group r) i j"
inductive_simps rx_sem_EndAnchor: "rx_sem ic s EndAnchor i j"

lemmas rx_sem_simps = rx_sem_Eps rx_sem_Lit rx_sem_Cat rx_sem_Alt rx_sem_Opt rx_sem_Group
  rx_sem_EndAnchor

lemma rx_match_sem: "rx_match ic s r k i \<longleftrightarrow> (\<exists>j. rx_sem ic s r i j \<and> k j)"
  by (induction r arbitrary: k i) (auto simp: rx_sem_simps)

subsection \<open>The image-name filter\<close>

text \<open>
  C2. The regular expression \<^verbatim>\<open>/\.(png|jpe?g|gif|webp|avif|svg)$/i\<close> accepts a name
  exactly when its case-folded form ends with a dot and one of the seven extensions of the
  specification's allow-list.
\<close>

theorem image_filter_accepts_exactly:
  "regexp_test image_regexp s \<longleftrightarrow>
   (\<exists>e\<in>set image_extensions. \<exists>p. map canonicalize s = p @ map canonicalize (CHR ''.'' # e))"
  by (simp add: image_regexp_test_iff has_image_extension_def suffix_def)

end
