(* ===== verification/Collation.thy ===== *)
theory Collation
  imports Prelude
begin

text \<open>
  \<^verbatim>\<open>String.prototype.localeCompare\<close> as the comparator of line 25 of
  \<^verbatim>\<open>src/docs/.vitepress/config.mts\<close> calls it: without locale or options, so V8 compares
  with ICU's root collation (the Unicode Collation Algorithm with the default table, its
  variable characters not ignorable) at tertiary strength.

  Each code unit U+0000..U+00FF maps to its collation elements, triples of a primary, a
  secondary and a tertiary weight, as the Default Unicode Collation Element Table
  (DUCET, Unicode 13.0.0) lists them: \<open>ducet_rows\<close> holds them in sixteen rows of
  sixteen code units. Letters with diacritics are their base letter followed by a
  secondary-only element (\<open>\<eacute>\<close> is \<open>e\<close> with a secondary accent weight); U+00E6 and U+00C6 (ae),
  U+00DF (sharp s) and the vulgar fractions expand to several elements; the control characters
  other than TAB, LF, VT, FF, CR and NEL, and the soft hyphen U+00AD, have none
  (completely ignorable). The table's one contraction in this range, \<open>l\<close> or \<open>L\<close>
  followed by U+00B7 MIDDLE DOT, makes the pair one collation unit (\<open>coll_units\<close>, step
  S2.1 of the algorithm). The sort key lists the non-zero primary weights of the
  string, then its non-zero secondary weights, then its non-zero tertiary weights, and
  strings compare by their keys; the result is -1, 0 or 1.
\<close>

type_synonym coll_elem = "nat \<times> nat \<times> nat"

text \<open>The collation elements of U+0000..U+00FF; the row \<open>r\<close> holds U+00r0..U+00rF.\<close>

definition ducet_rows :: "coll_elem list list list" where
  "ducet_rows =
   [\<comment> \<open>U+0000..U+000F\<close>
     [[], [], [], [],
      [], [], [], [],
      [], [(0x201, 0x20, 0x2)], [(0x202, 0x20, 0x2)], [(0x203, 0x20, 0x2)],
      [(0x204, 0x20, 0x2)], [(0x205, 0x20, 0x2)], [], []],
    \<comment> \<open>U+0010..U+001F\<close>
     [[], [], [], [],
      [], [], [], [],
      [], [], [], [],
      [], [], [], []],
    \<comment> \<open>U+0020..U+002F\<close>
     [[(0x209, 0x20, 0x2)], [(0x267, 0x20, 0x2)], [(0x31D, 0x20, 0x2)], [(0x3AC, 0x20, 0x2)],
      [(0x1F64, 0x20, 0x2)], [(0x3AD, 0x20, 0x2)], [(0x3A9, 0x20, 0x2)], [(0x316, 0x20, 0x2)],
      [(0x328, 0x20, 0x2)], [(0x329, 0x20, 0x2)], [(0x3A1, 0x20, 0x2)], [(0x666, 0x20, 0x2)],
      [(0x223, 0x20, 0x2)], [(0x20D, 0x20, 0x2)], [(0x27E, 0x20, 0x2)], [(0x3A6, 0x20, 0x2)]],
    \<comment> \<open>U+0030..U+003F\<close>
     [[(0x1F98, 0x20, 0x2)], [(0x1F99, 0x20, 0x2)], [(0x1F9A, 0x20, 0x2)], [(0x1F9B, 0x20, 0x2)],
      [(0x1F9C, 0x20, 0x2)], [(0x1F9D, 0x20, 0x2)], [(0x1F9E, 0x20, 0x2)], [(0x1F9F, 0x20, 0x2)],
      [(0x1FA0, 0x20, 0x2)], [(0x1FA1, 0x20, 0x2)], [(0x240, 0x20, 0x2)], [(0x23A, 0x20, 0x2)],
      [(0x66A, 0x20, 0x2)], [(0x66B, 0x20, 0x2)], [(0x66C, 0x20, 0x2)], [(0x26D, 0x20, 0x2)]],
    \<comment> \<open>U+0040..U+004F\<close>
     [[(0x3A0, 0x20, 0x2)], [(0x1FA2, 0x20, 0x8)], [(0x1FBC, 0x20, 0x8)], [(0x1FD6, 0x20, 0x8)],
      [(0x1FEB, 0x20, 0x8)], [(0x2007, 0x20, 0x8)], [(0x2042, 0x20, 0x8)], [(0x2051, 0x20, 0x8)],
      [(0x2075, 0x20, 0x8)], [(0x2090, 0x20, 0x8)], [(0x20AB, 0x20, 0x8)], [(0x20C4, 0x20, 0x8)],
      [(0x20D6, 0x20, 0x8)], [(0x2109, 0x20, 0x8)], [(0x2118, 0x20, 0x8)], [(0x213C, 0x20, 0x8)]],
    \<comment> \<open>U+0050..U+005F\<close>
     [[(0x216B, 0x20, 0x8)], [(0x2180, 0x20, 0x8)], [(0x2193, 0x20, 0x8)], [(0x21D2, 0x20, 0x8)],
      [(0x21F7, 0x20, 0x8)], [(0x2217, 0x20, 0x8)], [(0x2247, 0x20, 0x8)], [(0x2259, 0x20, 0x8)],
      [(0x2264, 0x20, 0x8)], [(0x2270, 0x20, 0x8)], [(0x2286, 0x20, 0x8)], [(0x32A, 0x20, 0x2)],
      [(0x3A7, 0x20, 0x2)], [(0x32B, 0x20, 0x2)], [(0x4B7, 0x20, 0x2)], [(0x20B, 0x20, 0x2)]],
    \<comment> \<open>U+0060..U+006F\<close>
     [[(0x4B4, 0x20, 0x2)], [(0x1FA2, 0x20, 0x2)], [(0x1FBC, 0x20, 0x2)], [(0x1FD6, 0x20, 0x2)],
      [(0x1FEB, 0x20, 0x2)], [(0x2007, 0x20, 0x2)], [(0x2042, 0x20, 0x2)], [(0x2051, 0x20, 0x2)],
      [(0x2075, 0x20, 0x2)], [(0x2090, 0x20, 0x2)], [(0x20AB, 0x20, 0x2)], [(0x20C4, 0x20, 0x2)],
      [(0x20D6, 0x20, 0x2)], [(0x2109, 0x20, 0x2)], [(0x2118, 0x20, 0x2)], [(0x213C, 0x20, 0x2)]],
    \<comment> \<open>U+0070..U+007F\<close>
     [[(0x216B, 0x20, 0x2)], [(0x2180, 0x20, 0x2)], [(0x2193, 0x20, 0x2)], [(0x21D2, 0x20, 0x2)],
      [(0x21F7, 0x20, 0x2)], [(0x2217, 0x20, 0x2)], [(0x2247, 0x20, 0x2)], [(0x2259, 0x20, 0x2)],
      [(0x2264, 0x20, 0x2)], [(0x2270, 0x20, 0x2)], [(0x2286, 0x20, 0x2)], [(0x32C, 0x20, 0x2)],
      [(0x66E, 0x20, 0x2)], [(0x32D, 0x20, 0x2)], [(0x670, 0x20, 0x2)], []],
    \<comment> \<open>U+0080..U+008F\<close>
     [[], [], [], [],
      [], [(0x206, 0x20, 0x2)], [], [],
      [], [], [], [],
      [], [], [], []],
    \<comment> \<open>U+0090..U+009F\<close>
     [[], [], [], [],
      [], [], [], [],
      [], [], [], [],
      [], [], [], []],
    \<comment> \<open>U+00A0..U+00AF\<close>
     [[(0x209, 0x20, 0x1B)], [(0x268, 0x20, 0x2)], [(0x1F63, 0x20, 0x2)], [(0x1F65, 0x20, 0x2)],
      [(0x1F62, 0x20, 0x2)], [(0x1F66, 0x20, 0x2)], [(0x66F, 0x20, 0x2)], [(0x39A, 0x20, 0x2)],
      [(0x4BB, 0x20, 0x2)], [(0x5D2, 0x20, 0x2)], [(0x1FA2, 0x20, 0x14)], [(0x326, 0x20, 0x2)],
      [(0x66D, 0x20, 0x2)], [], [(0x5D4, 0x20, 0x2)], [(0x4B8, 0x20, 0x2)]],
    \<comment> \<open>U+00B0..U+00BF\<close>
     [[(0x52A, 0x20, 0x2)], [(0x667, 0x20, 0x2)], [(0x1F9A, 0x20, 0x14)], [(0x1F9B, 0x20, 0x14)],
      [(0x4B5, 0x20, 0x2)], [(0x2330, 0x20, 0x4)], [(0x39C, 0x20, 0x2)], [(0x293, 0x20, 0x2)],
      [(0x4BE, 0x20, 0x2)], [(0x1F99, 0x20, 0x14)], [(0x213C, 0x20, 0x14)], [(0x327, 0x20, 0x2)],
      [(0x1F99, 0x20, 0x1E), (0x676, 0x20, 0x1E), (0x1F9C, 0x20, 0x1E)], [(0x1F99, 0x20, 0x1E), (0x676, 0x20, 0x1E), (0x1F9A, 0x20, 0x1E)], [(0x1F9B, 0x20, 0x1E), (0x676, 0x20, 0x1E), (0x1F9C, 0x20, 0x1E)], [(0x26E, 0x20, 0x2)]],
    \<comment> \<open>U+00C0..U+00CF\<close>
     [[(0x1FA2, 0x20, 0x8), (0x0, 0x25, 0x2)], [(0x1FA2, 0x20, 0x8), (0x0, 0x24, 0x2)], [(0x1FA2, 0x20, 0x8), (0x0, 0x27, 0x2)], [(0x1FA2, 0x20, 0x8), (0x0, 0x2D, 0x2)],
      [(0x1FA2, 0x20, 0x8), (0x0, 0x2B, 0x2)], [(0x1FA2, 0x20, 0x8), (0x0, 0x29, 0x2)], [(0x1FA2, 0x20, 0xA), (0x0, 0x118, 0x4), (0x2007, 0x20, 0xA)], [(0x1FD6, 0x20, 0x8), (0x0, 0x30, 0x2)],
      [(0x2007, 0x20, 0x8), (0x0, 0x25, 0x2)], [(0x2007, 0x20, 0x8), (0x0, 0x24, 0x2)], [(0x2007, 0x20, 0x8), (0x0, 0x27, 0x2)], [(0x2007, 0x20, 0x8), (0x0, 0x2B, 0x2)],
      [(0x2090, 0x20, 0x8), (0x0, 0x25, 0x2)], [(0x2090, 0x20, 0x8), (0x0, 0x24, 0x2)], [(0x2090, 0x20, 0x8), (0x0, 0x27, 0x2)], [(0x2090, 0x20, 0x8), (0x0, 0x2B, 0x2)]],
    \<comment> \<open>U+00D0..U+00DF\<close>
     [[(0x1FEB, 0x20, 0xA), (0x0, 0x118, 0x4)], [(0x2118, 0x20, 0x8), (0x0, 0x2D, 0x2)], [(0x213C, 0x20, 0x8), (0x0, 0x25, 0x2)], [(0x213C, 0x20, 0x8), (0x0, 0x24, 0x2)],
      [(0x213C, 0x20, 0x8), (0x0, 0x27, 0x2)], [(0x213C, 0x20, 0x8), (0x0, 0x2D, 0x2)], [(0x213C, 0x20, 0x8), (0x0, 0x2B, 0x2)], [(0x669, 0x20, 0x2)],
      [(0x213C, 0x20, 0x8), (0x0, 0x2F, 0x2)], [(0x2217, 0x20, 0x8), (0x0, 0x25, 0x2)], [(0x2217, 0x20, 0x8), (0x0, 0x24, 0x2)], [(0x2217, 0x20, 0x8), (0x0, 0x27, 0x2)],
      [(0x2217, 0x20, 0x8), (0x0, 0x2B, 0x2)], [(0x2270, 0x20, 0x8), (0x0, 0x24, 0x2)], [(0x22B5, 0x20, 0x8)], [(0x21D2, 0x20, 0x4), (0x0, 0x118, 0x4), (0x21D2, 0x20, 0x4)]],
    \<comment> \<open>U+00E0..U+00EF\<close>
     [[(0x1FA2, 0x20, 0x2), (0x0, 0x25, 0x2)], [(0x1FA2, 0x20, 0x2), (0x0, 0x24, 0x2)], [(0x1FA2, 0x20, 0x2), (0x0, 0x27, 0x2)], [(0x1FA2, 0x20, 0x2), (0x0, 0x2D, 0x2)],
      [(0x1FA2, 0x20, 0x2), (0x0, 0x2B, 0x2)], [(0x1FA2, 0x20, 0x2), (0x0, 0x29, 0x2)], [(0x1FA2, 0x20, 0x4), (0x0, 0x118, 0x4), (0x2007, 0x20, 0x4)], [(0x1FD6, 0x20, 0x2), (0x0, 0x30, 0x2)],
      [(0x2007, 0x20, 0x2), (0x0, 0x25, 0x2)], [(0x2007, 0x20, 0x2), (0x0, 0x24, 0x2)], [(0x2007, 0x20, 0x2), (0x0, 0x27, 0x2)], [(0x2007, 0x20, 0x2), (0x0, 0x2B, 0x2)],
      [(0x2090, 0x20, 0x2), (0x0, 0x25, 0x2)], [(0x2090, 0x20, 0x2), (0x0, 0x24, 0x2)], [(0x2090, 0x20, 0x2), (0x0, 0x27, 0x2)], [(0x2090, 0x20, 0x2), (0x0, 0x2B, 0x2)]],
    \<comment> \<open>U+00F0..U+00FF\<close>
     [[(0x1FEB, 0x20, 0x4), (0x0, 0x118, 0x4)], [(0x2118, 0x20, 0x2), (0x0, 0x2D, 0x2)], [(0x213C, 0x20, 0x2), (0x0, 0x25, 0x2)], [(0x213C, 0x20, 0x2), (0x0, 0x24, 0x2)],
      [(0x213C, 0x20, 0x2), (0x0, 0x27, 0x2)], [(0x213C, 0x20, 0x2), (0x0, 0x2D, 0x2)], [(0x213C, 0x20, 0x2), (0x0, 0x2B, 0x2)], [(0x668, 0x20, 0x2)],
      [(0x213C, 0x20, 0x2), (0x0, 0x2F, 0x2)], [(0x2217, 0x20, 0x2), (0x0, 0x25, 0x2)], [(0x2217, 0x20, 0x2), (0x0, 0x24, 0x2)], [(0x2217, 0x20, 0x2), (0x0, 0x27, 0x2)],
      [(0x2217, 0x20, 0x2), (0x0, 0x2B, 0x2)], [(0x2270, 0x20, 0x2), (0x0, 0x24, 0x2)], [(0x22B5, 0x20, 0x2)], [(0x2270, 0x20, 0x2), (0x0, 0x2B, 0x2)]]]"

definition ducet_entry :: "nat \<Rightarrow> coll_elem list" where
  "ducet_entry n = ducet_rows ! (n div 16) ! (n mod 16)"

definition collation_elements :: "char \<Rightarrow> coll_elem list" where
  "collation_elements c = ducet_entry (code c)"

definition ignorable :: "char \<Rightarrow> bool" where
  "ignorable c \<longleftrightarrow> collation_elements c = []"

text \<open>The contractions of the table that start in this range: \<open>l\<close> or \<open>L\<close> followed by
  U+00B7 MIDDLE DOT (the entries 006C 00B7 and 004C 00B7) is one collation unit with
  elements of its own.\<close>

definition ducet_contractions :: "((nat \<times> nat) \<times> coll_elem list) list" where
  "ducet_contractions =
     [((0x4C, 0xB7), [(0x20D6, 0x20, 0x8), (0x0, 0x118, 0x2)]),
      ((0x6C, 0xB7), [(0x20D6, 0x20, 0x2), (0x0, 0x118, 0x2)])]"

definition contraction :: "char \<Rightarrow> char \<Rightarrow> coll_elem list option" where
  "contraction c d = map_of ducet_contractions (code c, code d)"

text \<open>Step S2.1 of the Unicode Collation Algorithm: from the start of the rest of the string,
  the longest prefix that the table lists, a contraction where one applies and one
  character otherwise; the elements of the string are those of its units in order.\<close>

datatype coll_unit = Single char | Pair char char

fun coll_units :: "js_string \<Rightarrow> coll_unit list" where
  "coll_units (c # d # s) =
     (if contraction c d \<noteq> None then Pair c d # coll_units s else Single c # coll_units (d # s))"
| "coll_units s = map Single s"

fun unit_elements :: "coll_unit \<Rightarrow> coll_elem list" where
  "unit_elements (Single c) = collation_elements c"
| "unit_elements (Pair c d) =
     (case contraction c d of Some es \<Rightarrow> es | None \<Rightarrow> collation_elements c @ collation_elements d)"

definition string_elements :: "js_string \<Rightarrow> coll_elem list" where
  "string_elements s = concat (map unit_elements (coll_units s))"

text \<open>The sort key: the primary weights, then the secondary weights, then the tertiary weights,
  each without the zero weights, as the Unicode Collation Algorithm forms it; comparing the
  three lists lexicographically is comparing the sort keys with their level separators.\<close>

definition collation_key :: "js_string \<Rightarrow> nat list \<times> nat list \<times> nat list" where
  "collation_key s =
     (let es = string_elements s
      in (filter (\<lambda>w. w \<noteq> 0) (map fst es), filter (\<lambda>w. w \<noteq> 0) (map (fst \<circ> snd) es),
          filter (\<lambda>w. w \<noteq> 0) (map (snd \<circ> snd) es)))"

definition locale_compare :: "js_string \<Rightarrow> js_string \<Rightarrow> int" where
  "locale_compare a b = compare_by (collation_key a) (collation_key b)"

text \<open>For the proofs: the non-ignorable code units in the order of their collation elements,
  the shape of the elements (a primary weight exactly when the secondary weight is the
  common one, U+0020), and the inverse of the key on well-shaped elements.\<close>

definition sorted_codes :: "nat list" where
  "sorted_codes = [0x09, 0x0A, 0x0B, 0x0C, 0x0D, 0x85, 0x20, 0xA0, 0x5F, 0x2D, 0x2C, 0x3B, 0x3A, 0x21, 0xA1, 0x3F, 0xBF, 0x2E, 0xB7, 0x27, 0x22, 0xAB, 0xBB, 0x28, 0x29, 0x5B, 0x5D, 0x7B, 0x7D, 0xA7, 0xB6, 0x40, 0x2A, 0x2F, 0x5C, 0x26, 0x23, 0x25, 0x60, 0xB4, 0x5E, 0xAF, 0xA8, 0xB8, 0xB0, 0xA9, 0xAE, 0x2B, 0xB1, 0xF7, 0xD7, 0x3C, 0x3D, 0x3E, 0xAC, 0x7C, 0xA6, 0x7E, 0xA4, 0xA2, 0x24, 0xA3, 0xA5, 0x30, 0x31, 0xB9, 0xBD, 0xBC, 0x32, 0xB2, 0x33, 0xB3, 0xBE, 0x34, 0x35, 0x36, 0x37, 0x38, 0x39, 0x61, 0xE1, 0xE0, 0xE2, 0xE5, 0xE4, 0xE3, 0xE6, 0x41, 0xC1, 0xC0, 0xC2, 0xC5, 0xC4, 0xC3, 0xC6, 0xAA, 0x62, 0x42, 0x63, 0xE7, 0x43, 0xC7, 0x64, 0xF0, 0x44, 0xD0, 0x65, 0xE9, 0xE8, 0xEA, 0xEB, 0x45, 0xC9, 0xC8, 0xCA, 0xCB, 0x66, 0x46, 0x67, 0x47, 0x68, 0x48, 0x69, 0xED, 0xEC, 0xEE, 0xEF, 0x49, 0xCD, 0xCC, 0xCE, 0xCF, 0x6A, 0x4A, 0x6B, 0x4B, 0x6C, 0x4C, 0x6D, 0x4D, 0x6E, 0xF1, 0x4E, 0xD1, 0x6F, 0xF3, 0xF2, 0xF4, 0xF6, 0xF5, 0xF8, 0x4F, 0xD3, 0xD2, 0xD4, 0xD6, 0xD5, 0xD8, 0xBA, 0x70, 0x50, 0x71, 0x51, 0x72, 0x52, 0x73, 0xDF, 0x53, 0x74, 0x54, 0x75, 0xFA, 0xF9, 0xFB, 0xFC, 0x55, 0xDA, 0xD9, 0xDB, 0xDC, 0x76, 0x56, 0x77, 0x57, 0x78, 0x58, 0x79, 0xFD, 0xFF, 0x59, 0xDD, 0x7A, 0x5A, 0xFE, 0xDE, 0xB5]"

definition wf_elem :: "coll_elem \<Rightarrow> bool" where
  "wf_elem e = (case e of (p, s, t) \<Rightarrow> s \<noteq> 0 \<and> t \<noteq> 0 \<and> (p \<noteq> 0 \<longleftrightarrow> s = 32))"

fun rebuild :: "nat list \<Rightarrow> nat list \<Rightarrow> nat list \<Rightarrow> coll_elem list" where
  "rebuild ps (s # ss) (t # ts) =
     (if s = 32 then (hd ps, s, t) # rebuild (tl ps) ss ts else (0, s, t) # rebuild ps ss ts)"
| "rebuild _ _ _ = []"

fun unit_chars :: "coll_unit \<Rightarrow> js_string" where
  "unit_chars (Single c) = [c]"
| "unit_chars (Pair c d) = [c, d]"

fun unit_ok :: "coll_unit \<Rightarrow> bool" where
  "unit_ok (Single c) = (\<not> ignorable c)"
| "unit_ok (Pair c d) = (contraction c d \<noteq> None)"

definition all_entries :: "coll_elem list list" where
  "all_entries = concat ducet_rows @ map snd ducet_contractions"

text \<open>For the proofs: names of ASCII letters, digits and dots. Their collation elements
  are a strictly increasing function of the code unit with upper case folded to lower case,
  lower case first at the tertiary level.\<close>

definition alnum_dot :: "char \<Rightarrow> bool" where
  "alnum_dot c \<longleftrightarrow> (let n = code c in n = 46 \<or> (48 \<le> n \<and> n \<le> 57) \<or> (65 \<le> n \<and> n \<le> 90) \<or> (97 \<le> n \<and> n \<le> 122))"

definition fold_code :: "char \<Rightarrow> nat" where
  "fold_code c = (let n = code c in if 65 \<le> n \<and> n \<le> 90 then n + 32 else n)"

definition is_upper :: "char \<Rightarrow> bool" where
  "is_upper c \<longleftrightarrow> (let n = code c in 65 \<le> n \<and> n \<le> 90)"

definition primary_of_fold :: "nat \<Rightarrow> nat" where
  "primary_of_fold k = fst (hd (ducet_entry k))"

definition alnum_codes :: "nat list" where
  "alnum_codes = 46 # [48..<58] @ [65..<91] @ [97..<123]"

definition alnum_fold_codes :: "nat list" where
  "alnum_fold_codes = 46 # [48..<58] @ [97..<123]"

subsection \<open>The table\<close>

lemma ducet_shape: "length ducet_rows = 16" "list_all (\<lambda>r. length r = 16) ducet_rows"
  by (simp_all add: ducet_rows_def)

lemma ducet_wf:
  "list_all (\<lambda>e. list_all wf_elem e \<and> (e \<noteq> [] \<longrightarrow> fst (hd e) \<noteq> 0)) (concat ducet_rows)"
  by (simp add: ducet_rows_def wf_elem_def)

lemma contractions_wf:
  "list_all (\<lambda>e. list_all wf_elem e \<and> e \<noteq> [] \<and> fst (hd e) \<noteq> 0 \<and> e \<notin> set (concat ducet_rows))
     (map snd ducet_contractions)"
  "distinct (map snd ducet_contractions)"
  by (simp_all add: ducet_contractions_def ducet_rows_def wf_elem_def)

lemma ducet_prefix:
  "list_all (\<lambda>e. list_all (\<lambda>k. if fst (e ! k) = 0 then True else take k e \<notin> set all_entries)
      [1..<length e]) all_entries"
  by (simp add: all_entries_def ducet_rows_def ducet_contractions_def)

lemma ducet_sorted: "chain_lt (map ducet_entry sorted_codes)"
  by (simp add: sorted_codes_def ducet_entry_def ducet_rows_def)

lemma ducet_count:
  "length sorted_codes = 196" "length (filter (\<lambda>e. e \<noteq> []) (concat ducet_rows)) = 196"
  "list_all (\<lambda>n. n < 256 \<and> ducet_entry n \<noteq> []) sorted_codes"
  by (simp_all add: sorted_codes_def ducet_rows_def ducet_entry_def)

lemma length_concat_ducet: "length (concat ducet_rows) = 256"
  using length_concat_rows [OF ducet_shape(2)] by (simp add: ducet_shape(1))

lemma ducet_entry_nth: "n < 256 \<Longrightarrow> ducet_entry n = concat ducet_rows ! n"
  using nth_concat_rows [OF ducet_shape(2), of n] by (simp add: ducet_shape(1) ducet_entry_def)

lemma ducet_cover: "n < 256 \<Longrightarrow> ducet_entry n \<noteq> [] \<Longrightarrow> n \<in> set sorted_codes"
proof -
  let ?S = "{n. n < 256 \<and> ducet_entry n \<noteq> []}"
  assume n: "n < 256" "ducet_entry n \<noteq> []"
  have d: "distinct (map ducet_entry sorted_codes)"
    using chain_lt_sorted [OF ducet_sorted] by (simp add: strict_sorted_iff)
  then have "card (set sorted_codes) = 196"
    using ducet_count(1) by (simp add: distinct_card distinct_map)
  moreover have "set sorted_codes \<subseteq> ?S" using ducet_count(3) by (auto simp: list_all_iff)
  moreover have "card ?S = 196"
  proof -
    have "?S = {i. i < length (concat ducet_rows) \<and> concat ducet_rows ! i \<noteq> []}"
      by (auto simp: length_concat_ducet ducet_entry_nth)
    then show ?thesis using ducet_count(2) by (simp add: length_filter_conv_card)
  qed
  ultimately have "set sorted_codes = ?S" by (simp add: card_subset_eq)
  with n show ?thesis by simp
qed

lemma collation_elements_mem: "collation_elements c \<in> set (concat ducet_rows)"
  using nth_mem [of "code c" "concat ducet_rows"]
  by (simp add: collation_elements_def ducet_entry_nth length_concat_ducet)

lemma collation_elements_wf:
  "list_all wf_elem (collation_elements c)"
  "collation_elements c \<noteq> [] \<Longrightarrow> fst (hd (collation_elements c)) \<noteq> 0"
  using ducet_wf collation_elements_mem [of c] by (auto simp: list_all_iff)

subsection \<open>Collation elements determine the string\<close>

lemma collation_elements_inj:
  assumes "\<not> ignorable c" and "collation_elements c = collation_elements d"
  shows "c = d"
proof -
  have d: "distinct (map ducet_entry sorted_codes)"
    using chain_lt_sorted [OF ducet_sorted] by (simp add: strict_sorted_iff)
  then have inj: "inj_on ducet_entry (set sorted_codes)" by (simp add: distinct_map)
  have e: "ducet_entry (code c) = ducet_entry (code d)" "ducet_entry (code c) \<noteq> []"
    using assms by (simp_all add: ignorable_def collation_elements_def)
  have "code c \<in> set sorted_codes" and "code d \<in> set sorted_codes"
    using e by (simp_all add: ducet_cover)
  with inj e(1) have "code c = code d" by (rule inj_onD)
  then show ?thesis by (metis char_eq_iff_code)
qed

lemma contraction_entry:
  "contraction c d = Some es \<Longrightarrow> es \<in> set (map snd ducet_contractions)"
  unfolding contraction_def by (force dest: map_of_SomeD)

lemma contraction_inj:
  assumes "contraction c d = Some es" and "contraction c' d' = Some es"
  shows "c = c' \<and> d = d'"
proof -
  have "((code c, code d), es) \<in> set ducet_contractions" "((code c', code d'), es) \<in> set ducet_contractions"
    using assms by (auto simp: contraction_def dest: map_of_SomeD)
  moreover have "inj_on snd (set ducet_contractions)"
    using contractions_wf(2) by (simp add: distinct_map)
  ultimately have "(code c, code d) = (code c', code d')" by (metis inj_onD snd_conv prod.inject)
  then show ?thesis by (metis char_eq_iff_code prod.inject)
qed

lemma unit_elements_mem:
  assumes "unit_ok u"
  shows "unit_elements u \<in> set all_entries"
proof (cases u)
  case (Single c)
  then show ?thesis using collation_elements_mem [of c] by (simp add: all_entries_def)
next
  case (Pair c d)
  with assms obtain es where "contraction c d = Some es" by auto
  with Pair show ?thesis using contraction_entry [of c d es] by (simp add: all_entries_def)
qed

lemma unit_elements_wf:
  "list_all wf_elem (unit_elements u)"
  "unit_ok u \<Longrightarrow> unit_elements u \<noteq> [] \<and> fst (hd (unit_elements u)) \<noteq> 0"
proof -
  have c: "list_all wf_elem es \<and> es \<noteq> [] \<and> fst (hd es) \<noteq> 0" if "contraction c d = Some es" for c d es
    using contractions_wf(1) contraction_entry [OF that] by (auto simp: list_all_iff)
  show "list_all wf_elem (unit_elements u)"
    using c collation_elements_wf(1) by (cases u) (auto split: option.split)
  show "unit_ok u \<Longrightarrow> unit_elements u \<noteq> [] \<and> fst (hd (unit_elements u)) \<noteq> 0"
    using c collation_elements_wf(2) by (cases u) (auto simp: ignorable_def)
qed

lemma unit_elements_inj:
  assumes "unit_ok u" and "unit_ok v" and "unit_elements u = unit_elements v"
  shows "u = v"
proof (cases u)
  case (Single c)
  show ?thesis
  proof (cases v)
    case (Single d)
    with \<open>u = Single c\<close> assms show ?thesis by (auto intro: collation_elements_inj)
  next
    case (Pair d e)
    with assms obtain es where es: "contraction d e = Some es" by auto
    then have "es \<notin> set (concat ducet_rows)"
      using contractions_wf(1) contraction_entry [OF es] by (auto simp: list_all_iff)
    moreover have "es = collation_elements c" using assms(3) \<open>u = Single c\<close> Pair es by simp
    ultimately show ?thesis using collation_elements_mem [of c] by simp
  qed
next
  case (Pair c d)
  show ?thesis
  proof (cases v)
    case (Single e)
    from assms \<open>u = Pair c d\<close> obtain es where es: "contraction c d = Some es" by auto
    then have "es \<notin> set (concat ducet_rows)"
      using contractions_wf(1) contraction_entry [OF es] by (auto simp: list_all_iff)
    moreover have "es = collation_elements e" using assms(3) \<open>u = Pair c d\<close> Single es by simp
    ultimately show ?thesis using collation_elements_mem [of e] by simp
  next
    case (Pair e f)
    with \<open>u = Pair c d\<close> assms show ?thesis by (auto dest: contraction_inj)
  qed
qed

lemma unit_elements_prefix:
  assumes "unit_ok u" and "unit_ok v" and "unit_elements v = unit_elements u @ w" and "w \<noteq> []"
  shows "fst (hd w) = 0"
proof -
  let ?e = "unit_elements v" and ?k = "length (unit_elements u)"
  have k: "?k \<in> set [1..<length ?e]" using assms unit_elements_wf(2) [OF assms(1)] by (auto simp: Suc_le_eq)
  have "list_all (\<lambda>k. if fst (?e ! k) = 0 then True else take k ?e \<notin> set all_entries)
      [1..<length ?e]"
    using ducet_prefix unit_elements_mem [OF assms(2)] unfolding list_all_iff [of _ all_entries]
    by (rule bspec)
  with k have "fst (?e ! ?k) = 0 \<or> take ?k ?e \<notin> set all_entries"
    by (auto simp: list_all_iff split: if_splits)
  moreover have "take ?k ?e = unit_elements u" using assms(3) by simp
  moreover have "?e ! ?k = hd w" using assms(3,4) by (simp add: hd_conv_nth nth_append)
  ultimately show ?thesis using unit_elements_mem [OF assms(1)] by auto
qed

lemma rebuild_key:
  "list_all wf_elem es \<Longrightarrow>
   rebuild (filter (\<lambda>w. w \<noteq> 0) (map fst es)) (filter (\<lambda>w. w \<noteq> 0) (map (fst \<circ> snd) es))
     (filter (\<lambda>w. w \<noteq> 0) (map (snd \<circ> snd) es)) = es"
  by (induction es) (auto simp: wf_elem_def)

lemma units_head:
  assumes "list_all unit_ok vs" and "vs \<noteq> []"
  shows "concat (map unit_elements vs) \<noteq> [] \<and> fst (hd (concat (map unit_elements vs))) \<noteq> 0"
proof -
  obtain v vs' where vs: "vs = v # vs'" using assms(2) by (cases vs) auto
  with assms(1) unit_elements_wf(2) [of v] show ?thesis by simp
qed

lemma units_inj:
  "list_all unit_ok us \<Longrightarrow> list_all unit_ok vs \<Longrightarrow>
   concat (map unit_elements us) = concat (map unit_elements vs) \<Longrightarrow> us = vs"
proof (induction us arbitrary: vs)
  case Nil
  then show ?case using units_head [of vs] by auto
next
  case (Cons u us)
  then obtain v vs' where vs: "vs = v # vs'"
    using units_head [of "u # us"] by (cases vs) auto
  let ?X = "concat (map unit_elements us)" and ?Y = "concat (map unit_elements vs')"
  have eq: "unit_elements u @ ?X = unit_elements v @ ?Y" using Cons.prems(3) vs by simp
  have nu: "unit_ok u" "list_all unit_ok us" using Cons.prems(1) by simp_all
  have nv: "unit_ok v" "list_all unit_ok vs'" using Cons.prems(2) vs by simp_all
  from eq obtain ws where
    "unit_elements u = unit_elements v @ ws \<and> ws @ ?X = ?Y \<or>
     unit_elements u @ ws = unit_elements v \<and> ?X = ws @ ?Y"
    by (auto simp: append_eq_append_conv2)
  then show ?case
  proof (elim disjE conjE)
    assume w: "unit_elements u = unit_elements v @ ws" "ws @ ?X = ?Y"
    show ?thesis
    proof (cases "ws = []")
      case True
      with w nu nv have "u = v" by (metis append_Nil2 unit_elements_inj)
      with w True Cons.IH nu nv show ?thesis by (simp add: vs)
    next
      case False
      with w nu nv have "fst (hd ws) = 0" using unit_elements_prefix [OF nv(1) nu(1) w(1)] by simp
      moreover have "vs' \<noteq> []" using w False by auto
      then have "fst (hd ?Y) \<noteq> 0" using units_head [OF nv(2)] by simp
      ultimately show ?thesis using w False by (metis hd_append2)
    qed
  next
    assume w: "unit_elements u @ ws = unit_elements v" "?X = ws @ ?Y"
    show ?thesis
    proof (cases "ws = []")
      case True
      with w nu nv have "u = v" by (metis append_Nil2 unit_elements_inj)
      with w True Cons.IH nu nv show ?thesis by (simp add: vs)
    next
      case False
      then have "fst (hd ws) = 0" using unit_elements_prefix [OF nu(1) nv(1) w(1) [symmetric]] by simp
      moreover have "us \<noteq> []" using w False by auto
      then have "fst (hd ?X) \<noteq> 0" using units_head [OF nu(2)] by simp
      ultimately show ?thesis using w False by (metis hd_append2)
    qed
  qed
qed

lemma unit_chars_units: "concat (map unit_chars (coll_units s)) = s"
  by (induction s rule: coll_units.induct) auto

lemma coll_units_ok: "\<not> list_ex ignorable s \<Longrightarrow> list_all unit_ok (coll_units s)"
  by (induction s rule: coll_units.induct) auto

lemma collation_key_inj:
  assumes "\<not> list_ex ignorable s" and "\<not> list_ex ignorable t"
    and "collation_key s = collation_key t"
  shows "s = t"
proof -
  have wf: "list_all wf_elem (string_elements u)" for u
  proof -
    have "list_all wf_elem (concat (map unit_elements us))" for us
      by (induction us) (simp_all add: unit_elements_wf(1))
    then show ?thesis by (simp add: string_elements_def)
  qed
  from assms(3) have "string_elements s = string_elements t"
    using rebuild_key [OF wf [of s]] rebuild_key [OF wf [of t]]
    by (simp add: collation_key_def Let_def)
  then have "coll_units s = coll_units t"
    using units_inj [OF coll_units_ok [OF assms(1)] coll_units_ok [OF assms(2)]]
    by (simp add: string_elements_def)
  then show ?thesis by (metis unit_chars_units)
qed

lemma string_elements_no_dot:
  "(\<forall>d\<in>set s. code d \<noteq> 0xB7) \<Longrightarrow> string_elements s = concat (map collation_elements s)"
proof -
  assume "\<forall>d\<in>set s. code d \<noteq> 0xB7"
  then have "coll_units s = map Single s"
    by (induction s rule: coll_units.induct) (auto simp: contraction_def ducet_contractions_def)
  then show ?thesis by (simp add: string_elements_def comp_def)
qed

subsection \<open>Names of letters, digits and dots\<close>

lemma alnum_table:
  "list_all (\<lambda>n. ducet_entry n =
       [(primary_of_fold (if 65 \<le> n \<and> n \<le> 90 then n + 32 else n), 32, if 65 \<le> n \<and> n \<le> 90 then 8 else 2)]
     \<and> primary_of_fold (if 65 \<le> n \<and> n \<le> 90 then n + 32 else n) \<noteq> 0) alnum_codes"
  by (simp add: upt_rec alnum_codes_def primary_of_fold_def ducet_entry_def ducet_rows_def)

lemma alnum_code_sets:
  "set alnum_codes = {46} \<union> {48..<58} \<union> {65..<91} \<union> {97..<123}"
  "set alnum_fold_codes = {46} \<union> {48..<58} \<union> {97..<123}"
  by (simp_all add: alnum_codes_def alnum_fold_codes_def Un_assoc del: upt_rec_numeral)

lemma alnum_fold_sorted:
  "sorted_wrt (<) alnum_fold_codes" "sorted_wrt (<) (map primary_of_fold alnum_fold_codes)"
proof -
  have "chain_lt alnum_fold_codes" "chain_lt (map primary_of_fold alnum_fold_codes)"
    by (simp_all add: upt_rec alnum_fold_codes_def primary_of_fold_def ducet_entry_def ducet_rows_def)
  then show "sorted_wrt (<) alnum_fold_codes" "sorted_wrt (<) (map primary_of_fold alnum_fold_codes)"
    by (simp_all add: chain_lt_sorted)
qed

lemma primary_of_fold_mono:
  "\<forall>x\<in>set alnum_fold_codes. \<forall>y\<in>set alnum_fold_codes. primary_of_fold x < primary_of_fold y \<longleftrightarrow> x < y"
  using sorted_wrt_mono_iff [OF alnum_fold_sorted] .

lemma tertiary_mono:
  "\<forall>x\<in>UNIV. \<forall>y\<in>UNIV. ((if x then 8 else 2) :: nat) < (if y then 8 else 2) \<longleftrightarrow> x < y"
  by auto

lemma fold_code_alnum: "alnum_dot c \<Longrightarrow> fold_code c \<in> set alnum_fold_codes"
  by (auto simp: alnum_dot_def fold_code_def alnum_code_sets Let_def)

lemma collation_elements_alnum:
  assumes "alnum_dot c"
  shows "collation_elements c = [(primary_of_fold (fold_code c), 32, if is_upper c then 8 else 2)]"
    and "primary_of_fold (fold_code c) \<noteq> 0"
proof -
  have "code c \<in> set alnum_codes"
    using assms by (auto simp: alnum_dot_def alnum_code_sets Let_def)
  with alnum_table show "collation_elements c = [(primary_of_fold (fold_code c), 32, if is_upper c then 8 else 2)]"
    and "primary_of_fold (fold_code c) \<noteq> 0"
    by (auto simp: list_all_iff collation_elements_def fold_code_def is_upper_def Let_def)
qed

lemma collation_key_alnum:
  assumes "list_all alnum_dot s"
  shows "collation_key s =
     (map primary_of_fold (map fold_code s), replicate (length s) 32,
      map (\<lambda>b. if b then 8 else 2) (map is_upper s))"
proof -
  have "(\<forall>d\<in>set s. code d \<noteq> 0xB7)"
    using assms by (auto simp: list_all_iff alnum_dot_def Let_def)
  then have "string_elements s = concat (map collation_elements s)" by (rule string_elements_no_dot)
  moreover have "concat (map collation_elements s) =
      map (\<lambda>c. (primary_of_fold (fold_code c), 32, if is_upper c then 8 else 2)) s"
    using assms by (induction s) (simp_all add: collation_elements_alnum)
  moreover have "\<forall>c\<in>set s. primary_of_fold (fold_code c) \<noteq> 0"
    using assms collation_elements_alnum(2) by (auto simp: list_all_iff)
  moreover have "filter ((<) 0) (map (\<lambda>x. if is_upper x then 8 else 2) s) =
      map (\<lambda>x. if is_upper x then (8::nat) else 2) s"
    by (induction s) auto
  ultimately show ?thesis
    by (simp add: collation_key_def comp_def filter_True map_replicate_const)
qed

end
