(* ===== verification/JsSort.thy ===== *)
theory JsSort
  imports Prelude
begin

text \<open>
  \<^verbatim>\<open>Array.prototype.sort(comparefn)\<close> as line 25 of \<^verbatim>\<open>src/docs/.vitepress/config.mts\<close>
  calls it. ECMAScript (since 2019) requires the sort to be stable and, for a consistent
  comparator, to return a permutation of the input ordered by the comparator. V8
  implements it with TimSort, a stable merge sort; the model is the top-down stable merge
  sort: the merge takes the left element unless the comparator says it is greater than the
  right one. The theorem \<open>js_sort_compare_by\<close> shows that for a comparator that compares
  keys, the result is the one stable sorted permutation, \<open>sort_key\<close>, so any stable sort
  V8 uses gives the same array.
\<close>

type_synonym 'a comparator = "'a \<Rightarrow> 'a \<Rightarrow> int"

fun merge_cmp :: "'a comparator \<Rightarrow> 'a list \<Rightarrow> 'a list \<Rightarrow> 'a list" where
  "merge_cmp cmp [] ys = ys"
| "merge_cmp cmp xs [] = xs"
| "merge_cmp cmp (x # xs) (y # ys) =
     (if cmp x y \<le> 0 then x # merge_cmp cmp xs (y # ys) else y # merge_cmp cmp (x # xs) ys)"

fun js_sort :: "'a comparator \<Rightarrow> 'a list \<Rightarrow> 'a list" where
  "js_sort cmp xs =
     (let n = length xs in
      if n \<le> 1 then xs
      else merge_cmp cmp (js_sort cmp (take (n div 2) xs)) (js_sort cmp (drop (n div 2) xs)))"

declare js_sort.simps [simp del]

text \<open>The comparator of a key: what \<open>compare_by\<close> makes of a key function.\<close>

definition key_cmp :: "('a \<Rightarrow> 'k::linorder) \<Rightarrow> 'a comparator" where
  "key_cmp key a b = compare_by (key a) (key b)"

subsection \<open>Permutation, for every comparator\<close>

lemma mset_merge_cmp [simp]: "mset (merge_cmp cmp xs ys) = mset xs + mset ys"
  by (induction cmp xs ys rule: merge_cmp.induct) auto

lemma set_merge_cmp [simp]: "set (merge_cmp cmp xs ys) = set xs \<union> set ys"
  by (simp flip: set_mset_mset)

lemma mset_js_sort: "mset (js_sort cmp xs) = mset xs"
proof (induction cmp xs rule: js_sort.induct)
  case (1 cmp xs)
  let ?n = "length xs"
  show ?case
  proof (cases "?n \<le> 1")
    case True
    then show ?thesis by (simp add: js_sort.simps [of cmp xs])
  next
    case False
    then have "mset (js_sort cmp xs) =
        mset (take (?n div 2) xs) + mset (drop (?n div 2) xs)"
      by (simp add: js_sort.simps [of cmp xs] "1.IH" Let_def)
    also have "\<dots> = mset xs" by (simp flip: mset_append)
    finally show ?thesis .
  qed
qed

subsection \<open>Comparators of a key: sorted and stable\<close>

lemma sorted_merge_cmp:
  "sorted (map key xs) \<Longrightarrow> sorted (map key ys) \<Longrightarrow>
   sorted (map key (merge_cmp (key_cmp key) xs ys))"
  by (induction "key_cmp key" xs ys rule: merge_cmp.induct) (auto simp: key_cmp_def)

lemma filter_merge_cmp:
  "sorted (map key xs) \<Longrightarrow>
   filter (\<lambda>y. key y = k) (merge_cmp (key_cmp key) xs ys) =
   filter (\<lambda>y. key y = k) xs @ filter (\<lambda>y. key y = k) ys"
  by (induction "key_cmp key" xs ys rule: merge_cmp.induct)
    (auto simp: key_cmp_def Cons_eq_append_conv intro!: filter_False)

lemma js_sort_sorted_stable_cmp:
  "cmp = key_cmp key \<Longrightarrow>
   sorted (map key (js_sort cmp xs)) \<and>
   filter (\<lambda>y. key y = k) (js_sort cmp xs) = filter (\<lambda>y. key y = k) xs"
proof (induction cmp xs rule: js_sort.induct)
  case (1 cmp xs)
  let ?n = "length xs"
  show ?case
  proof (cases "?n \<le> 1")
    case True
    then show ?thesis by (auto simp: js_sort.simps [of cmp xs] sorted01)
  next
    case False
    let ?l = "js_sort cmp (take (?n div 2) xs)" and ?r = "js_sort cmp (drop (?n div 2) xs)"
    have "js_sort cmp xs = merge_cmp cmp ?l ?r"
      using False by (simp add: js_sort.simps [of cmp xs] Let_def)
    then have eq: "js_sort cmp xs = merge_cmp (key_cmp key) ?l ?r"
      by (simp only: "1.prems")
    from False "1.IH" "1.prems" have "sorted (map key ?l)" "sorted (map key ?r)"
      and "filter (\<lambda>y. key y = k) ?l = filter (\<lambda>y. key y = k) (take (?n div 2) xs)"
      and "filter (\<lambda>y. key y = k) ?r = filter (\<lambda>y. key y = k) (drop (?n div 2) xs)"
      by simp_all
    then show ?thesis
      unfolding eq by (simp add: sorted_merge_cmp filter_merge_cmp flip: filter_append)
  qed
qed

lemmas js_sort_sorted_stable = js_sort_sorted_stable_cmp [OF refl]

theorem js_sort_compare_by: "js_sort (key_cmp key) xs = sort_key key xs"
proof (rule sym, rule properties_for_sort_key)
  show "mset (js_sort (key_cmp key) xs) = mset xs" by (rule mset_js_sort)
  show "sorted (map key (js_sort (key_cmp key) xs))" using js_sort_sorted_stable by blast
  show "filter (\<lambda>x. key k = key x) (js_sort (key_cmp key) xs) = filter (\<lambda>x. key k = key x) xs"
    for k using js_sort_sorted_stable [of key xs "key k"] by (simp add: eq_commute)
qed

end
