(* ===== verification/Json.thy ===== *)
theory Json
  imports Prelude
begin

text \<open>
  \<^verbatim>\<open>JSON.stringify(urls)\<close> of line 32 of \<^verbatim>\<open>src/docs/.vitepress/config.mts\<close> on an array of
  strings, after ECMAScript's \<open>SerializeJSONArray\<close> (no indentation: elements joined by
  commas inside brackets, \<^verbatim>\<open>[]\<close> for the empty array) and \<open>QuoteJSONString\<close> (the
  short escapes for backspace, tab, line feed, form feed, carriage return, quote and
  backslash, \<^verbatim>\<open>\u\<close> with four lower-case hexadecimal digits for the other code units
  below U+0020, every other code unit as it is).

  The reading side, \<open>json_parse\<close>, is the consumer's view of the generated module: the
  array literal read back as JSON text (which is also how a JavaScript engine evaluates
  it). It is a character-level state machine for JSON arrays of strings in the form
  \<open>JSON.stringify\<close> writes them (no insignificant white space), with structural
  recursion on the input.
\<close>

definition backslash :: char where "backslash = CHR 0x5C"
definition dquote :: char where "dquote = CHR 0x22"

definition hex_digits :: "char list" where
  "hex_digits = ''0123456789abcdef''"

text \<open>\<open>UnicodeEscape(C)\<close>: \<^verbatim>\<open>\u\<close> and the four hexadecimal digits of the code unit.\<close>

definition unicode_escape :: "char \<Rightarrow> js_string" where
  "unicode_escape c =
     (let n = code c in
      [backslash, CHR ''u'', hex_digits ! (n div 4096), hex_digits ! (n div 256 mod 16),
       hex_digits ! (n div 16 mod 16), hex_digits ! (n mod 16)])"

text \<open>The table of short escapes of \<open>QuoteJSONString\<close>.\<close>

definition short_escape :: "char \<Rightarrow> char option" where
  "short_escape c =
     (let n = code c in
      if n = 8 then Some CHR ''b'' else if n = 9 then Some CHR ''t''
      else if n = 10 then Some CHR ''n'' else if n = 12 then Some CHR ''f''
      else if n = 13 then Some CHR ''r'' else if n = 34 then Some dquote
      else if n = 92 then Some backslash else None)"

definition json_escape :: "char \<Rightarrow> js_string" where
  "json_escape c =
     (case short_escape c of
        Some e \<Rightarrow> [backslash, e]
      | None \<Rightarrow> if code c < 32 then unicode_escape c else [c])"

definition json_quote :: "js_string \<Rightarrow> js_string" where
  "json_quote s = dquote # concat (map json_escape s) @ [dquote]"

text \<open>Joining the serialised elements with a separator, as \<open>SerializeJSONArray\<close> does.\<close>

fun join_with :: "js_string \<Rightarrow> js_string list \<Rightarrow> js_string" where
  "join_with sep [] = []"
| "join_with sep [x] = x"
| "join_with sep (x # y # ys) = x @ sep @ join_with sep (y # ys)"

definition json_stringify_array :: "js_string list \<Rightarrow> js_string" where
  "json_stringify_array xs =
     (if xs = [] then ''[]'' else CHR ''['' # join_with '','' (map json_quote xs) @ '']'')"

text \<open>The number of code units \<open>QuoteJSONString\<close> writes for a code unit: two for the
  seven short escapes, six for the other code units below U+0020, one otherwise.\<close>

definition escaped_length :: "char \<Rightarrow> nat" where
  "escaped_length c = (if code c \<in> {8, 9, 10, 12, 13, 34, 92} then 2 else if code c < 32 then 6 else 1)"

subsection \<open>Reading the array back\<close>

text \<open>The escape sequences \<^verbatim>\<open>\"\<close>, \<^verbatim>\<open>\\\<close>, \<^verbatim>\<open>\/\<close>, \<^verbatim>\<open>\b\<close>, \<^verbatim>\<open>\f\<close>,
  \<^verbatim>\<open>\n\<close>, \<^verbatim>\<open>\r\<close>, \<^verbatim>\<open>\t\<close> of JSON.\<close>

definition unescape :: "char \<Rightarrow> char option" where
  "unescape c =
     (if c = dquote then Some dquote else if c = backslash then Some backslash
      else if c = CHR ''/'' then Some CHR ''/'' else if c = CHR ''b'' then Some (char_of (8::nat))
      else if c = CHR ''f'' then Some (char_of (12::nat)) else if c = CHR ''n'' then Some (char_of (10::nat))
      else if c = CHR ''r'' then Some (char_of (13::nat)) else if c = CHR ''t'' then Some (char_of (9::nat))
      else None)"

definition hex_value :: "char \<Rightarrow> nat option" where
  "hex_value c =
     (let n = code c in
      if 48 \<le> n \<and> n \<le> 57 then Some (n - 48)
      else if 97 \<le> n \<and> n \<le> 102 then Some (n - 87)
      else if 65 \<le> n \<and> n \<le> 70 then Some (n - 55) else None)"

datatype json_state =
    Start | ArrOpen | ExpectValue | InString "char list" | InEscape "char list"
  | InUnicode "char list" nat nat | AfterValue | Done

text \<open>\<open>InString acc\<close> holds the characters read so far in reverse; \<open>InUnicode acc k n\<close>
  has read \<open>k\<close> of the four hexadecimal digits, of value \<open>n\<close>; a code unit
  beyond U+00FF has no \<open>char\<close> and is refused.\<close>

fun json_run :: "json_state \<Rightarrow> js_string list \<Rightarrow> js_string \<Rightarrow> js_string list option" where
  "json_run Done vs [] = Some (rev vs)"
| "json_run st vs [] = None"
| "json_run Start vs (c # cs) = (if c = CHR ''['' then json_run ArrOpen vs cs else None)"
| "json_run ArrOpen vs (c # cs) =
     (if c = CHR '']'' then json_run Done vs cs
      else if c = dquote then json_run (InString []) vs cs else None)"
| "json_run ExpectValue vs (c # cs) =
     (if c = dquote then json_run (InString []) vs cs else None)"
| "json_run (InString acc) vs (c # cs) =
     (if c = dquote then json_run AfterValue (rev acc # vs) cs
      else if c = backslash then json_run (InEscape acc) vs cs
      else if code c < 32 then None
      else json_run (InString (c # acc)) vs cs)"
| "json_run (InEscape acc) vs (c # cs) =
     (if c = CHR ''u'' then json_run (InUnicode acc 0 0) vs cs
      else case unescape c of
        Some d \<Rightarrow> json_run (InString (d # acc)) vs cs
      | None \<Rightarrow> None)"
| "json_run (InUnicode acc k n) vs (c # cs) =
     (case hex_value c of
        None \<Rightarrow> None
      | Some h \<Rightarrow>
          if k = 3 then (if 16 * n + h < 256 then json_run (InString (char_of (16 * n + h) # acc)) vs cs
                         else None)
          else json_run (InUnicode acc (Suc k) (16 * n + h)) vs cs)"
| "json_run AfterValue vs (c # cs) =
     (if c = CHR '','' then json_run ExpectValue vs cs
      else if c = CHR '']'' then json_run Done vs cs else None)"
| "json_run Done vs (c # cs) = None"

definition json_parse :: "js_string \<Rightarrow> js_string list option" where
  "json_parse s = json_run Start [] s"

subsection \<open>Round trip\<close>

lemma hex_value_digit: "d < 16 \<Longrightarrow> hex_value (hex_digits ! d) = Some d"
proof -
  have "list_all (\<lambda>d. hex_value (hex_digits ! d) = Some d) [0..<16]"
    by (simp add: hex_digits_def hex_value_def upt_rec)
  then show "d < 16 \<Longrightarrow> ?thesis" by (simp add: list_all_iff)
qed

lemma unescape_short:
  "short_escape c = Some e \<Longrightarrow> unescape e = Some c \<and> e \<noteq> CHR ''u''"
  by (auto simp: short_escape_def unescape_def Let_def dquote_def backslash_def char_eq_iff_code
      split: if_splits)

lemma short_escape_None:
  "short_escape c = None \<Longrightarrow> c \<noteq> dquote \<and> c \<noteq> backslash"
  by (auto simp: short_escape_def Let_def dquote_def backslash_def split: if_splits)

lemma json_run_unicode:
  assumes "code c < 32"
  shows "json_run (InString acc) vs (unicode_escape c @ rest) = json_run (InString (c # acc)) vs rest"
proof -
  let ?n = "code c"
  have d: "?n div 4096 = 0" "?n div 256 mod 16 = 0" "?n div 16 mod 16 = ?n div 16" "?n div 16 < 16"
    using assms by simp_all
  have v: "16 * (?n div 16) + ?n mod 16 = ?n" by simp
  show ?thesis
    using assms
    by (simp add: unicode_escape_def Let_def d hex_value_digit backslash_def dquote_def v)
qed

lemma json_run_escape:
  "json_run (InString acc) vs (json_escape c @ rest) = json_run (InString (c # acc)) vs rest"
proof (cases "short_escape c")
  case None
  with short_escape_None [OF None] show ?thesis
    by (auto simp: json_escape_def json_run_unicode)
next
  case (Some e)
  with unescape_short [OF Some] show ?thesis
    by (simp add: json_escape_def backslash_def dquote_def)
qed

lemma json_run_string:
  "json_run (InString acc) vs (concat (map json_escape s) @ dquote # rest) =
   json_run AfterValue ((rev acc @ s) # vs) rest"
  by (induction s arbitrary: acc) (simp_all add: json_run_escape)

lemma json_run_quote:
  "json_run ExpectValue vs (json_quote x @ rest) = json_run AfterValue (x # vs) rest"
  "json_run ArrOpen vs (json_quote x @ rest) = json_run AfterValue (x # vs) rest"
  using json_run_string [of "[]" vs x rest] by (simp_all add: json_quote_def dquote_def)

lemma json_run_elements:
  "json_run ExpectValue vs (join_with '','' (map json_quote (x # xs)) @ '']'') = Some (rev vs @ x # xs)"
proof (induction xs arbitrary: x vs)
  case Nil
  show ?case using json_run_quote(1) [of vs x "'']''"] by simp
next
  case (Cons y ys)
  have "json_run ExpectValue vs (join_with '','' (map json_quote (x # y # ys)) @ '']'') =
        json_run AfterValue (x # vs) ('','' @ join_with '','' (map json_quote (y # ys)) @ '']'')"
    using json_run_quote(1) by simp
  also have "\<dots> = Some (rev (x # vs) @ y # ys)"
    using Cons.IH by simp
  finally show ?case by simp
qed

theorem json_roundtrip: "json_parse (json_stringify_array xs) = Some xs"
proof (cases xs)
  case Nil
  then show ?thesis by (simp add: json_parse_def json_stringify_array_def)
next
  case (Cons x ys)
  have "json_run ArrOpen [] (join_with '','' (map json_quote (x # ys)) @ '']'') =
        json_run ExpectValue [] (join_with '','' (map json_quote (x # ys)) @ '']'')"
    by (cases ys) (simp_all add: json_quote_def dquote_def)
  with Cons json_run_elements [of "[]" x ys] show ?thesis
    by (simp add: json_parse_def json_stringify_array_def)
qed

subsection \<open>Size and printable output\<close>

text \<open>Every code unit \<open>QuoteJSONString\<close> writes is at or above U+0020, so the serialised
  array holds no line break or other control character; each code unit of the input takes
  one to six code units of the output.\<close>

lemma join_with_length:
  "xs \<noteq> [] \<Longrightarrow> length (join_with sep xs) + length sep = (\<Sum>x\<leftarrow>xs. length x + length sep)"
  by (induction sep xs rule: join_with.induct) auto

lemma hex_digits_printable: "i < 16 \<Longrightarrow> 32 \<le> code (hex_digits ! i)"
proof -
  assume "i < 16"
  moreover have "length hex_digits = 16" by (simp add: hex_digits_def)
  ultimately have "hex_digits ! i \<in> set hex_digits" by (metis nth_mem)
  moreover have "list_all (\<lambda>x. 32 \<le> code x) hex_digits" by (simp add: hex_digits_def)
  ultimately show ?thesis by (simp add: list_all_iff)
qed

lemma json_escape_printable: "list_all (\<lambda>x. 32 \<le> code x) (json_escape c)"
proof -
  have "code c < 4096" using nat_of_char_less_256 [of c] by linarith
  then have "code c div 4096 < 16" and "code c div 256 mod 16 < 16" and "code c div 16 mod 16 < 16"
    and "code c mod 16 < 16" by simp_all
  then show ?thesis
    by (auto simp: json_escape_def unicode_escape_def short_escape_def Let_def backslash_def
        dquote_def split: option.split if_splits intro!: hex_digits_printable)
qed

lemma json_quote_printable: "list_all (\<lambda>x. 32 \<le> code x) (json_quote s)"
  by (simp add: json_quote_def dquote_def list_all_iff json_escape_printable [unfolded list_all_iff])

lemma json_escape_length: "length (json_escape c) = escaped_length c"
  by (simp add: json_escape_def short_escape_def unicode_escape_def escaped_length_def Let_def)

lemma json_quote_length_eq: "length (json_quote s) = 2 + (\<Sum>c\<leftarrow>s. escaped_length c)"
  by (induction s) (simp_all add: json_quote_def json_escape_length)

lemma join_with_printable:
  "list_all P sep \<Longrightarrow> list_all (list_all P) xs \<Longrightarrow> list_all P (join_with sep xs)"
  by (induction sep xs rule: join_with.induct) auto

lemma json_stringify_array_printable:
  "list_all (\<lambda>x. 32 \<le> code x) (json_stringify_array xs)"
proof -
  have "list_all (list_all (\<lambda>x. 32 \<le> code x)) (map json_quote xs)"
    by (induction xs) (simp_all add: json_quote_printable)
  then show ?thesis
    by (simp add: json_stringify_array_def join_with_printable)
qed

end
