(* ===== verification/ImagesPlugin.thy ===== *)
theory ImagesPlugin
  imports JsRegex Collation JsSort Json
begin

text \<open>
  The Vite plugin \<^verbatim>\<open>virtualImagesPlugin\<close> of \<^verbatim>\<open>src/docs/.vitepress/config.mts\<close>
  (lines 6-35). Its \<^verbatim>\<open>resolveId\<close> hook maps the module name \<^verbatim>\<open>virtual:images\<close> to
  the same name behind a NUL character; its \<^verbatim>\<open>load\<close> hook, for that resolved name only,
  reads the directory \<^verbatim>\<open>../public/images\<close> next to the configuration, keeps the regular
  files whose names match the image pattern, sorts them with \<^verbatim>\<open>localeCompare\<close>, and
  returns a module whose default export is the JSON array of their URLs
  \<^verbatim>\<open>/images/<name>\<close>. Any exception of the listing leaves the list empty.

  The file system is the one input of the hook: \<open>file_system\<close> is what
  \<^verbatim>\<open>fs.readdirSync(path, {withFileTypes: true})\<close> gives for each path, an error code (the
  exception) or the directory entries in the order the operating system enumerates them.
\<close>

subsection \<open>Directory entries and the file system\<close>

text \<open>The type of a \<^verbatim>\<open>fs.Dirent\<close>: what \<^verbatim>\<open>isFile()\<close>, \<^verbatim>\<open>isDirectory()\<close>,
  \<^verbatim>\<open>isSymbolicLink()\<close> and the other predicates report, from the directory entry itself
  (a symbolic link is reported as a link, not as what it points to).\<close>

datatype dirent_kind =
    DT_File | DT_Dir | DT_Link | DT_Fifo | DT_Socket | DT_Char | DT_Block | DT_Unknown

record dirent =
  dirent_name :: js_string
  dirent_kind :: dirent_kind

definition is_file :: "dirent \<Rightarrow> bool" where
  "is_file d \<longleftrightarrow> dirent_kind d = DT_File"

datatype fs_error = ENOENT | ENOTDIR | EACCES | EMFILE | EIO

type_synonym file_system = "js_string \<Rightarrow> fs_error + dirent list"

subsection \<open>\<^verbatim>\<open>path.resolve\<close>\<close>

text \<open>
  Node's POSIX \<^verbatim>\<open>path.resolve\<close>: the arguments are taken from the right until one is
  absolute (the working directory \<open>cwd\<close>, itself absolute, comes last), joined with
  \<^verbatim>\<open>/\<close>, and normalised: empty and \<^verbatim>\<open>.\<close> segments are dropped, \<^verbatim>\<open>..\<close> removes the
  segment before it (and nothing at the root).
\<close>

fun split_path :: "js_string \<Rightarrow> js_string list" where
  "split_path [] = [[]]"
| "split_path (c # cs) =
     (if c = CHR ''/'' then [] # split_path cs
      else (case split_path cs of seg # segs \<Rightarrow> (c # seg) # segs | [] \<Rightarrow> [[c]]))"

fun normalize_segments :: "js_string list \<Rightarrow> js_string list \<Rightarrow> js_string list" where
  "normalize_segments acc [] = rev acc"
| "normalize_segments acc (seg # segs) =
     (if seg = [] \<or> seg = ''.'' then normalize_segments acc segs
      else if seg = ''..'' then normalize_segments (drop 1 acc) segs
      else normalize_segments (seg # acc) segs)"

fun resolve_from :: "js_string list \<Rightarrow> js_string \<Rightarrow> js_string" where
  "resolve_from [] resolved = resolved"
| "resolve_from (p # ps) resolved =
     (if p = [] then resolve_from ps resolved
      else if hd p = CHR ''/'' then p @ ''/'' @ resolved
      else resolve_from ps (p @ ''/'' @ resolved))"

definition path_resolve :: "js_string \<Rightarrow> js_string list \<Rightarrow> js_string" where
  "path_resolve cwd args =
     ''/'' @ join_with ''/'' (normalize_segments [] (split_path (resolve_from (rev args @ [cwd]) [])))"

definition public_dir :: "js_string \<Rightarrow> js_string \<Rightarrow> js_string" where
  "public_dir cwd dirname = path_resolve cwd [dirname, ''../public/images'']"

text \<open>For the proofs: a path segment that normalisation keeps as it is.\<close>

definition plain_segment :: "js_string \<Rightarrow> bool" where
  "plain_segment seg \<longleftrightarrow> seg \<noteq> [] \<and> seg \<noteq> ''.'' \<and> seg \<noteq> ''..'' \<and> CHR ''/'' \<notin> set seg"

subsection \<open>The hooks\<close>

definition VIRTUAL_ID :: js_string where
  "VIRTUAL_ID = ''virtual:images''"

definition RESOLVED_VIRTUAL_ID :: js_string where
  "RESOLVED_VIRTUAL_ID = CHR 0x00 # VIRTUAL_ID"

definition resolveId :: "js_string \<Rightarrow> js_string option" where
  "resolveId mid = (if mid = VIRTUAL_ID then Some RESOLVED_VIRTUAL_ID else None)"

text \<open>The \<^verbatim>\<open>try\<close> block of lines 19-28: read the directory, keep the regular files,
  take their names, keep the image names, sort them; the \<^verbatim>\<open>catch\<close> gives the empty
  list.\<close>

definition list_images :: "file_system \<Rightarrow> js_string \<Rightarrow> js_string list" where
  "list_images fs dir =
     (case fs dir of
        Inl _ \<Rightarrow> []
      | Inr ds \<Rightarrow>
          js_sort locale_compare
            (filter (regexp_test image_regexp) (map dirent_name (filter is_file ds))))"

definition image_urls :: "js_string list \<Rightarrow> url list" where
  "image_urls files = map (\<lambda>f. ''/images/'' @ f) files"

definition export_default :: "js_string \<Rightarrow> js_string" where
  "export_default json = ''export default '' @ json"

definition load :: "js_string \<Rightarrow> js_string \<Rightarrow> file_system \<Rightarrow> js_string \<Rightarrow> js_string option" where
  "load cwd dirname fs mid =
     (if mid \<noteq> RESOLVED_VIRTUAL_ID then None
      else Some (export_default
                   (json_stringify_array (image_urls (list_images fs (public_dir cwd dirname))))))"

text \<open>A plugin object of the build tool: its name, its \<^verbatim>\<open>resolveId\<close> and \<^verbatim>\<open>load\<close>
  hooks, and the hook through which a plugin names the modules to invalidate when a file
  changes (\<^verbatim>\<open>handleHotUpdate\<close>, given the path of the changed file). The object of
  lines 10-34 defines no such hook, so it names no module.\<close>

record vite_plugin =
  plugin_name :: js_string
  resolve_hook :: "js_string \<Rightarrow> js_string option"
  load_hook :: "file_system \<Rightarrow> js_string \<Rightarrow> js_string option"
  hot_update :: "js_string \<Rightarrow> js_string list"

definition virtualImagesPlugin :: "js_string \<Rightarrow> js_string \<Rightarrow> vite_plugin" where
  "virtualImagesPlugin cwd dirname =
     \<lparr>plugin_name = ''virtual-images-list'', resolve_hook = resolveId,
      load_hook = load cwd dirname, hot_update = (\<lambda>_. [])\<rparr>"

subsection \<open>The consumer's view\<close>

text \<open>What a module importing \<^verbatim>\<open>virtual:images\<close> receives as its default export: the
  JSON array after \<^verbatim>\<open>export default\<close>.\<close>

definition module_default :: "js_string \<Rightarrow> js_string list option" where
  "module_default m =
     (if take 15 m = ''export default '' then json_parse (drop 15 m) else None)"

text \<open>The listing the specification asks for (section 4.1): the image names of the regular
  files, in the order of the collation, as URLs.\<close>

definition spec_listing :: "dirent list \<Rightarrow> js_string list" where
  "spec_listing ds =
     sort_key collation_key (filter has_image_extension (map dirent_name (filter is_file ds)))"

text \<open>The directory of the specification's example (section 8).\<close>

definition example_dir :: "dirent list" where
  "example_dir =
     [\<lparr>dirent_name = ''b.PNG'', dirent_kind = DT_File\<rparr>, \<lparr>dirent_name = ''a.jpg'', dirent_kind = DT_File\<rparr>,
      \<lparr>dirent_name = ''c.txt'', dirent_kind = DT_File\<rparr>, \<lparr>dirent_name = ''A.svg'', dirent_kind = DT_File\<rparr>]"

subsection \<open>The listing the hook computes\<close>

lemma locale_compare_key_cmp: "locale_compare = key_cmp collation_key"
  by (simp add: fun_eq_iff locale_compare_def key_cmp_def)

lemma list_images_Inr: "fs dir = Inr ds \<Longrightarrow> list_images fs dir = spec_listing ds"
  by (simp add: list_images_def spec_listing_def locale_compare_key_cmp js_sort_compare_by
      image_regexp_test_iff [abs_def])

lemma module_default_export [simp]: "module_default (export_default j) = json_parse j"
  by (simp add: module_default_def export_default_def)

lemma list_images_Inl: "fs dir = Inl e \<Longrightarrow> list_images fs dir = []"
  by (simp add: list_images_def)

lemma list_images_sum:
  "list_images fs dir = (case fs dir of Inl _ \<Rightarrow> [] | Inr ds \<Rightarrow> spec_listing ds)"
  by (simp add: list_images_Inr list_images_Inl split: sum.split)

lemma list_images_set:
  "fs dir = Inr ds \<Longrightarrow>
   set (list_images fs dir) = set (filter has_image_extension (map dirent_name (filter is_file ds)))"
  by (simp add: list_images_Inr spec_listing_def)

text \<open>Names without completely ignorable code units have distinct collation keys, so
  their listing does not depend on the order of the directory's entries.\<close>

lemma list_images_permutation:
  assumes "mset ds = mset ds0" and "\<forall>n\<in>set (list_images (\<lambda>_. Inr ds0) dir). \<not> list_ex ignorable n"
  shows "list_images (\<lambda>_. Inr ds) dir = list_images (\<lambda>_. Inr ds0) dir"
proof -
  let ?names = "\<lambda>ds. filter has_image_extension (map dirent_name (filter is_file ds))"
  have m: "mset (?names ds) = mset (?names ds0)"
    using assms(1) by (simp add: mset_filter mset_map)
  then have "set (?names ds) = set (list_images (\<lambda>_. Inr ds0) dir)"
    by (metis list_images_set set_mset_mset)
  then have "inj_on collation_key (set (?names ds))"
    using assms(2) by (auto intro!: inj_onI collation_key_inj)
  with m have "sort_key collation_key (?names ds) = sort_key collation_key (?names ds0)"
    by (rule sort_key_eq_sort_key)
  then show ?thesis by (simp add: list_images_Inr spec_listing_def)
qed

lemma load_resolved:
  "load cwd dirname fs RESOLVED_VIRTUAL_ID =
     Some (export_default (json_stringify_array (image_urls (list_images fs (public_dir cwd dirname)))))"
  by (simp add: load_def)

subsection \<open>Path resolution\<close>

lemma split_path_nonempty: "split_path s \<noteq> []"
  by (induction s) (auto split: list.split)

lemma split_path_no_slash: "CHR ''/'' \<notin> set s \<Longrightarrow> split_path s = [s]"
  by (induction s) auto

lemma split_path_slash: "split_path (a @ CHR ''/'' # b) = split_path a @ split_path b"
proof (induction a)
  case Nil
  then show ?case by simp
next
  case (Cons c a)
  obtain seg segs where "split_path a = seg # segs"
    using split_path_nonempty by (cases "split_path a") auto
  with Cons show ?case by (auto split: list.split)
qed

lemma split_path_join:
  "\<forall>seg\<in>set (x # xs). CHR ''/'' \<notin> set seg \<Longrightarrow>
   split_path (join_with ''/'' (x # xs)) = x # xs"
proof (induction xs arbitrary: x)
  case Nil
  then show ?case by (simp add: split_path_no_slash)
next
  case (Cons y ys)
  then show ?case by (simp add: split_path_slash split_path_no_slash)
qed

lemma normalize_plain:
  "\<forall>seg\<in>set segs. plain_segment seg \<Longrightarrow>
   normalize_segments acc (segs @ rest) = normalize_segments (rev segs @ acc) rest"
  by (induction segs arbitrary: acc) (auto simp: plain_segment_def)

declare spec_listing_def [model_defs] is_file_def [model_defs] has_image_extension_def [model_defs]
  image_extensions_def [model_defs] canonicalize_def [model_defs] collation_key_def [model_defs]
  collation_elements_def [model_defs] ducet_entry_def [model_defs] ducet_rows_def [model_defs]
  ignorable_def [model_defs] string_elements_def [model_defs] contraction_def [model_defs]
  ducet_contractions_def [model_defs] suffix_iff_drop [model_defs] image_urls_def [model_defs]

subsection \<open>Properties of the hook\<close>

text \<open>
  C1. End to end: when \<^verbatim>\<open>readdirSync\<close> on the resolved public directory returns
  the entries \<open>ds\<close>, the \<^verbatim>\<open>load\<close> hook returns a module, and the array a consumer
  reads from its default export is exactly the URL list of the specification: the image
  names of the regular files of \<open>ds\<close>, in collation order, each prefixed with
  \<^verbatim>\<open>/images/\<close>.
\<close>

theorem load_exports_listing:
  assumes "fs (public_dir cwd dirname) = Inr ds"
  shows "\<exists>m. load cwd dirname fs RESOLVED_VIRTUAL_ID = Some m \<and>
             module_default m = Some (image_urls (spec_listing ds))"
  using assms by (simp add: load_def list_images_Inr json_roundtrip)

theorem load_exports_listing_witness:
  "(\<lambda>_. Inr example_dir) (public_dir ''/home'' ''/site/docs/.vitepress'') = (Inr example_dir :: fs_error + dirent list) \<and>
   (\<exists>m. load ''/home'' ''/site/docs/.vitepress'' (\<lambda>_. Inr example_dir) RESOLVED_VIRTUAL_ID = Some m \<and>
        module_default m = Some [''/images/a.jpg'', ''/images/A.svg'', ''/images/b.PNG''])"
  using load_exports_listing [of "\<lambda>_. Inr example_dir" "''/home''" "''/site/docs/.vitepress''" example_dir]
  by (simp add: example_dir_def model_defs)

text \<open>
  C3. Whatever the directory holds, the listing is sorted by the collation key that
  \<^verbatim>\<open>localeCompare\<close> compares.
\<close>

theorem list_images_sorted: "sorted (map collation_key (list_images fs dir))"
  by (simp add: list_images_def locale_compare_key_cmp js_sort_compare_by split: sum.split)

text \<open>
  C4. The listing holds exactly one entry per regular file with an image name (as a
  multiset), and nothing when the directory cannot be read.
\<close>

theorem list_images_one_per_file:
  "mset (list_images fs dir) =
     (case fs dir of Inl _ \<Rightarrow> {#}
      | Inr ds \<Rightarrow> mset (filter has_image_extension (map dirent_name (filter is_file ds))))"
  by (simp add: list_images_def locale_compare_key_cmp js_sort_compare_by image_regexp_test_iff [abs_def]
      split: sum.split)

end
