(* ===== verification/SiteConfig.thy ===== *)
theory SiteConfig
  imports ImagesPlugin
begin

text \<open>
  The exported configuration of \<^verbatim>\<open>src/docs/.vitepress/config.mts\<close> (lines 38-66), the
  build tool's chain of plugin hooks through which its \<^verbatim>\<open>vite.plugins\<close> list is used, and
  the base-path prefixing a consumer of the image list applies.
\<close>

subsection \<open>The configuration\<close>

record nav_item =
  item_text :: js_string
  item_link :: js_string

record sidebar_group =
  group_text :: js_string
  group_items :: "nav_item list"

record social_link =
  social_icon :: js_string
  social_url :: js_string

record theme_config =
  nav :: "nav_item list"
  sidebar :: "sidebar_group list"
  socialLinks :: "social_link list"

text \<open>\<open>base\<close> is commented out in the source (line 41), so it is absent (\<open>None\<close>).
  The plugin is created once, when the configuration module is evaluated, with the
  module's \<^verbatim>\<open>__dirname\<close> and the process's working directory.\<close>

record site_config =
  title :: js_string
  description :: js_string
  base :: "js_string option"
  vite_plugins :: "vite_plugin list"
  themeConfig :: theme_config

definition site_config :: "js_string \<Rightarrow> js_string \<Rightarrow> site_config" where
  "site_config cwd dirname =
     \<lparr>title = ''Beauty'',
      description = ''An improvement in the quality of life'',
      base = None,
      vite_plugins = [virtualImagesPlugin cwd dirname],
      themeConfig =
        \<lparr>nav = [],
         sidebar = [\<lparr>group_text = ''Examples'', group_items = []\<rparr>],
         socialLinks = []\<rparr>\<rparr>"

subsection \<open>The plugin chain\<close>

text \<open>
  The build tool asks its plugins in order: the first \<^verbatim>\<open>resolveId\<close> that returns an id
  wins, and the first \<^verbatim>\<open>load\<close> that returns code wins. Importing a module is resolving
  its name and loading the resolved id. The tool's own plugins and those of VitePress are
  the other members of the list.
\<close>

fun chain_resolve :: "vite_plugin list \<Rightarrow> js_string \<Rightarrow> js_string option" where
  "chain_resolve [] mid = None"
| "chain_resolve (p # ps) mid =
     (case resolve_hook p mid of Some r \<Rightarrow> Some r | None \<Rightarrow> chain_resolve ps mid)"

fun chain_load :: "vite_plugin list \<Rightarrow> file_system \<Rightarrow> js_string \<Rightarrow> js_string option" where
  "chain_load [] fs rid = None"
| "chain_load (p # ps) fs rid =
     (case load_hook p fs rid of Some c \<Rightarrow> Some c | None \<Rightarrow> chain_load ps fs rid)"

definition import_module :: "vite_plugin list \<Rightarrow> file_system \<Rightarrow> js_string \<Rightarrow> js_string option" where
  "import_module ps fs mid = Option.bind (chain_resolve ps mid) (chain_load ps fs)"

subsection \<open>The base path\<close>

text \<open>
  VitePress's \<^verbatim>\<open>withBase\<close>, which the comment of line 30 names: a path starting with
  \<^verbatim>\<open>/\<close> is joined to the site's base and every run of slashes collapsed to one
  (\<^verbatim>\<open>joinPath\<close>); the base is \<^verbatim>\<open>/\<close> when the configuration sets none.
\<close>

fun collapse_slashes :: "js_string \<Rightarrow> js_string" where
  "collapse_slashes [] = []"
| "collapse_slashes [c] = [c]"
| "collapse_slashes (c # d # cs) =
     (if c = CHR ''/'' \<and> d = CHR ''/'' then collapse_slashes (d # cs)
      else c # collapse_slashes (d # cs))"

definition site_base :: "site_config \<Rightarrow> js_string" where
  "site_base cfg = (case base cfg of None \<Rightarrow> ''/'' | Some b \<Rightarrow> b)"

definition with_base :: "js_string \<Rightarrow> js_string \<Rightarrow> js_string" where
  "with_base b path = (if take 1 path = ''/'' then collapse_slashes (b @ path) else path)"

text \<open>
  The browser's reading of an \<^verbatim>\<open><img src>\<close> URL (WHATWG URL parser): the input is
  trimmed of leading and trailing C0 controls and spaces, every tab, line feed and carriage
  return is removed, and in the path state of a special (\<^verbatim>\<open>http\<close>) URL a backslash
  reads as a slash and the path ends at the first \<^verbatim>\<open>?\<close> (the query follows) or
  \<^verbatim>\<open>#\<close> (the fragment follows). \<open>url_path\<close> is that path before its percent-encoding,
  which the development server undoes when it maps the path back to a file.
\<close>

definition c0_or_space :: "char \<Rightarrow> bool" where
  "c0_or_space c \<longleftrightarrow> code c \<le> 0x20"

definition url_path :: "url \<Rightarrow> js_string" where
  "url_path u =
     (let v = filter (\<lambda>c. c \<noteq> CHR 0x09 \<and> c \<noteq> CHR 0x0A \<and> c \<noteq> CHR 0x0D)
                (rev (dropWhile c0_or_space (rev (dropWhile c0_or_space u))))
      in map (\<lambda>c. if c = CHR 0x5C then CHR ''/'' else c)
             (takeWhile (\<lambda>c. c \<noteq> CHR ''?'' \<and> c \<noteq> CHR ''#'') v))"

subsection \<open>Lemmas\<close>

lemma chain_resolve_append:
  "(\<forall>p\<in>set ps. resolve_hook p mid = None) \<Longrightarrow> chain_resolve (ps @ qs) mid = chain_resolve qs mid"
  by (induction ps) auto

lemma chain_load_append:
  "(\<forall>p\<in>set ps. load_hook p fs rid = None) \<Longrightarrow> chain_load (ps @ qs) fs rid = chain_load qs fs rid"
  by (induction ps) auto

lemma collapse_slashes_no_slash:
  "CHR ''/'' \<notin> set f \<Longrightarrow> collapse_slashes (c # f) = c # f"
  by (induction f arbitrary: c) auto

lemma mem_dropWhile: "x \<in> set xs \<Longrightarrow> \<not> P x \<Longrightarrow> x \<in> set (dropWhile P xs)"
  by (induction xs) auto

lemma takeWhile_shorter: "x \<in> set xs \<Longrightarrow> \<not> P x \<Longrightarrow> length (takeWhile P xs) < length xs"
  by (induction xs) auto

lemma url_path_shorter:
  assumes "CHR ''?'' \<in> set u \<or> CHR ''#'' \<in> set u"
  shows "length (url_path u) < length u"
proof -
  let ?v = "filter (\<lambda>c. c \<noteq> CHR 0x09 \<and> c \<noteq> CHR 0x0A \<and> c \<noteq> CHR 0x0D)
              (rev (dropWhile c0_or_space (rev (dropWhile c0_or_space u))))"
  let ?Q = "\<lambda>c. c \<noteq> CHR ''?'' \<and> c \<noteq> CHR ''#''"
  obtain x where x: "x \<in> set u" "\<not> ?Q x" using assms by auto
  then have "\<not> c0_or_space x" by (auto simp: c0_or_space_def)
  with x have m: "x \<in> set ?v" by (auto intro!: mem_dropWhile)
  from m x(2) have "length (takeWhile ?Q ?v) < length ?v" by (rule takeWhile_shorter)
  moreover have "length ?v \<le> length u"
    by (rule order_trans [OF length_filter_le]) (simp add: length_dropWhile_le order_trans [OF length_dropWhile_le])
  ultimately show ?thesis by (simp add: url_path_def Let_def)
qed

lemma import_site_plugins:
  "import_module (vite_plugins (site_config cwd dirname)) fs VIRTUAL_ID =
   load cwd dirname fs RESOLVED_VIRTUAL_ID"
proof -
  have "RESOLVED_VIRTUAL_ID \<noteq> VIRTUAL_ID" by (simp add: RESOLVED_VIRTUAL_ID_def)
  then show ?thesis
    by (simp add: import_module_def site_config_def virtualImagesPlugin_def resolveId_def load_def)
qed

end
