(* ===== verification/ModuleCache.thy ===== *)
theory ModuleCache
  imports SiteConfig
begin

text \<open>
  The build tool's module cache, through which the plugin of
  \<^verbatim>\<open>src/docs/.vitepress/config.mts\<close> is used over the life of a development server or a
  build: the server keeps the code a resolved id was loaded to (its module graph's
  transform result) and answers later imports of that id from it; the directory may change
  in between (an image is added to \<^verbatim>\<open>public/images\<close>), and a restart of the server
  empties the cache. A file of the public directory belongs to no module, so its change
  invalidates only the modules the plugins' \<^verbatim>\<open>handleHotUpdate\<close> hooks name for it
  (\<open>hot_update\<close>, \<open>invalidated\<close>). The session is a state (\<open>dev_state\<close>), one step per event
  (\<open>dev_step\<close>), runs of events (\<open>dev_run\<close>) and the reachable states (\<open>dev_reach\<close>).
\<close>

subsection \<open>Sessions of the development server\<close>

record dev_state =
  dev_fs :: file_system
  module_cache :: "js_string \<Rightarrow> js_string option"

datatype dev_event = Import js_string | Change_fs js_string file_system | Restart

text \<open>The modules the plugins name for invalidation when the file at a path changes.\<close>

definition invalidated :: "vite_plugin list \<Rightarrow> js_string \<Rightarrow> js_string list" where
  "invalidated ps path = concat (map (\<lambda>p. hot_update p path) ps)"

definition dev_start :: "file_system \<Rightarrow> dev_state" where
  "dev_start fs = \<lparr>dev_fs = fs, module_cache = Map.empty\<rparr>"

text \<open>
  An import resolves the name through the plugin chain, answers from the cache when the
  resolved id is there, and otherwise loads it through the chain and stores the code.
\<close>

definition dev_import :: "vite_plugin list \<Rightarrow> dev_state \<Rightarrow> js_string \<Rightarrow> js_string option \<times> dev_state" where
  "dev_import ps st mid =
     (case chain_resolve ps mid of
        None \<Rightarrow> (None, st)
      | Some rid \<Rightarrow>
          (case module_cache st rid of
             Some c \<Rightarrow> (Some c, st)
           | None \<Rightarrow>
               (case chain_load ps (dev_fs st) rid of
                  None \<Rightarrow> (None, st)
                | Some c \<Rightarrow> (Some c, st\<lparr>module_cache := (module_cache st)(rid \<mapsto> c)\<rparr>))))"

fun dev_step :: "vite_plugin list \<Rightarrow> dev_state \<Rightarrow> dev_event \<Rightarrow> js_string option \<times> dev_state" where
  "dev_step ps st (Import mid) = dev_import ps st mid"
| "dev_step ps st (Change_fs path fs) =
     (None, st\<lparr>dev_fs := fs,
                module_cache := (\<lambda>rid. if rid \<in> set (invalidated ps path) then None
                                        else module_cache st rid)\<rparr>)"
| "dev_step ps st Restart = (None, st\<lparr>module_cache := Map.empty\<rparr>)"

fun dev_run :: "vite_plugin list \<Rightarrow> dev_state \<Rightarrow> dev_event list \<Rightarrow> js_string option list \<times> dev_state" where
  "dev_run ps st [] = ([], st)"
| "dev_run ps st (ev # evs) =
     (let (out, st1) = dev_step ps st ev;
          (outs, st2) = dev_run ps st1 evs
      in (out # outs, st2))"

inductive dev_reach :: "vite_plugin list \<Rightarrow> dev_state \<Rightarrow> bool" for ps where
  start: "dev_reach ps (dev_start fs)"
| step: "dev_reach ps st \<Longrightarrow> dev_step ps st ev = (out, st') \<Longrightarrow> dev_reach ps st'"

text \<open>
  The cache is valid when every code it holds for an id is what the plugin chain loads
  that id to on some state of the file system.
\<close>

definition cache_valid :: "vite_plugin list \<Rightarrow> dev_state \<Rightarrow> bool" where
  "cache_valid ps st \<longleftrightarrow> (\<forall>rid c. module_cache st rid = Some c \<longrightarrow> (\<exists>fs. chain_load ps fs rid = Some c))"

subsection \<open>Lemmas\<close>

lemma dev_import_cases:
  assumes "dev_import ps st mid = (out, st')"
  obtains "out = None" "st' = st"
  | rid c where "chain_resolve ps mid = Some rid" "module_cache st rid = Some c" "out = Some c" "st' = st"
  | rid c where "chain_resolve ps mid = Some rid" "module_cache st rid = None"
      "chain_load ps (dev_fs st) rid = Some c" "out = Some c"
      "st' = st\<lparr>module_cache := (module_cache st)(rid \<mapsto> c)\<rparr>"
proof (cases "chain_resolve ps mid")
  case None
  with assms show thesis by (intro that(1)) (simp_all add: dev_import_def)
next
  case (Some rid)
  show thesis
  proof (cases "module_cache st rid")
    case (Some c)
    with \<open>chain_resolve ps mid = Some rid\<close> assms show thesis
      by (intro that(2) [of rid c]) (simp_all add: dev_import_def)
  next
    case None
    show thesis
    proof (cases "chain_load ps (dev_fs st) rid")
      case None
      with \<open>chain_resolve ps mid = Some rid\<close> \<open>module_cache st rid = None\<close> assms show thesis
        by (intro that(1)) (simp_all add: dev_import_def)
    next
      case (Some c)
      with \<open>chain_resolve ps mid = Some rid\<close> \<open>module_cache st rid = None\<close> assms show thesis
        by (intro that(3) [of rid c]) (auto simp: dev_import_def)
    qed
  qed
qed

lemma dev_import_hit:
  "chain_resolve ps mid = Some rid \<Longrightarrow> module_cache st rid = Some c \<Longrightarrow> dev_import ps st mid = (Some c, st)"
  by (simp add: dev_import_def)

lemma dev_import_miss:
  "chain_resolve ps mid = Some rid \<Longrightarrow> module_cache st rid = None \<Longrightarrow>
   fst (dev_import ps st mid) = import_module ps (dev_fs st) mid"
  by (simp add: dev_import_def import_module_def split: option.split)

lemma dev_import_valid:
  "dev_import ps st mid = (out, st') \<Longrightarrow> cache_valid ps st \<Longrightarrow> cache_valid ps st'"
  by (erule dev_import_cases) (auto simp: cache_valid_def)

lemma dev_step_valid:
  assumes "dev_step ps st ev = (out, st')" and "cache_valid ps st"
  shows "cache_valid ps st'"
  using assms
proof (cases ev)
  case (Import mid)
  with assms show ?thesis by (simp add: dev_import_valid)
qed (auto simp: cache_valid_def split: if_splits)

lemma dev_reach_valid: "dev_reach ps st \<Longrightarrow> cache_valid ps st"
proof (induction rule: dev_reach.induct)
  case (start fs)
  then show ?case by (simp add: cache_valid_def dev_start_def)
next
  case (step st ev out st')
  then show ?case by (blast intro: dev_step_valid)
qed

lemma chain_resolve_site:
  "chain_resolve (vite_plugins (site_config cwd dirname)) VIRTUAL_ID = Some RESOLVED_VIRTUAL_ID"
  by (simp add: site_config_def virtualImagesPlugin_def resolveId_def)

lemma invalidated_site: "invalidated (vite_plugins (site_config cwd dirname)) path = []"
  by (simp add: invalidated_def site_config_def virtualImagesPlugin_def)

lemma chain_load_site:
  "chain_load (vite_plugins (site_config cwd dirname)) fs rid = load cwd dirname fs rid"
  by (simp add: site_config_def virtualImagesPlugin_def split: option.split)

end
