(* ===== verification/Theme.thy ===== *)
theory Theme
  imports Prelude
begin

text \<open>
  The theme of \<^verbatim>\<open>src/docs/.vitepress/theme/index.ts\<close>: it extends VitePress's default
  theme, turns on lazy loading of Markdown images, registers the carousel components
  \<^verbatim>\<open>Swiper\<close> and \<^verbatim>\<open>SwiperSlide\<close> on the Vue application in \<^verbatim>\<open>enhanceApp\<close>, and
  renders the default layout with no slot filled (the \<^verbatim>\<open>home-features-after\<close> slot is
  commented out). The application is modelled by its registry of global components:
  Vue's \<^verbatim>\<open>app.component(name, c)\<close> stores \<open>c\<close> under \<open>name\<close>, replacing an earlier
  registration of the same name.
\<close>

datatype component = DefaultThemeLayout | Swiper | SwiperSlide | HomeSponsors

record vue_app =
  app_components :: "js_string \<rightharpoonup> component"

definition app_component :: "js_string \<Rightarrow> component \<Rightarrow> vue_app \<Rightarrow> vue_app" where
  "app_component name c app = app\<lparr>app_components := (app_components app)(name \<mapsto> c)\<rparr>"

text \<open>\<^verbatim>\<open>enhanceApp({ app })\<close>: the two registrations in the order of lines 26-27.\<close>

definition enhance_app :: "vue_app \<Rightarrow> vue_app" where
  "enhance_app app = app_component ''SwiperSlide'' SwiperSlide (app_component ''Swiper'' Swiper app)"

text \<open>The result of \<^verbatim>\<open>h(component, props, slots)\<close>: a component and its named slots.\<close>

datatype vnode = H component "(js_string \<times> vnode) list"

definition layout :: vnode where
  "layout = H DefaultThemeLayout []"

record theme =
  extends_default :: bool
  markdown_image_lazy_loading :: bool
  enhanceApp :: "vue_app \<Rightarrow> vue_app"
  Layout :: vnode

definition theme :: theme where
  "theme = \<lparr>extends_default = True, markdown_image_lazy_loading = True,
            enhanceApp = enhance_app, Layout = layout\<rparr>"

lemma app_components_enhance_app:
  "app_components (enhance_app app) =
     (app_components app)(''Swiper'' \<mapsto> Swiper, ''SwiperSlide'' \<mapsto> SwiperSlide)"
  by (simp add: enhance_app_def app_component_def)

end
