(* ===== verification/Spec2Isabelle.thy ===== *)
theory Spec2Isabelle
  imports ModuleCache Theme
begin

text \<open>
  \<^bold>\<open>A verification of the image-listing plugin and configuration of the documentation
  site.\<close>

  \<^bold>\<open>The program.\<close> Two source files. \<^verbatim>\<open>src/docs/.vitepress/config.mts\<close> declares the
  VitePress site configuration (title, description, navigation, sidebar, social links) and
  the Vite plugin \<^verbatim>\<open>virtualImagesPlugin\<close>: its \<^verbatim>\<open>resolveId\<close> hook maps the module
  name \<^verbatim>\<open>virtual:images\<close> to a private resolved name, and its \<^verbatim>\<open>load\<close> hook lists the
  directory \<^verbatim>\<open>../public/images\<close> (regular files only, names matched by a regular
  expression, sorted with \<^verbatim>\<open>localeCompare\<close>, an empty list if anything throws) and returns
  a module whose default export is the JSON array of the URLs \<^verbatim>\<open>/images/<name>\<close>.
  \<^verbatim>\<open>src/docs/.vitepress/theme/index.ts\<close> extends the default theme, enables lazy
  loading of Markdown images and registers two carousel components in \<^verbatim>\<open>enhanceApp\<close>.
  The build tool calls the hooks; the site's pages import the virtual module.

  \<^bold>\<open>Theories.\<close>
  \<^item> \<open>Prelude\<close>: the type \<open>js_string\<close> (JavaScript strings over the code units
    U+0000..U+00FF, one \<open>char\<close> each), the collection \<open>model_defs\<close> of definitions
    concrete evaluations unfold, the comparator interface \<open>compare_by\<close> (a key compared in
    a linear order, answered by -1, 0 or 1) and list lemmas on suffixes.
  \<^item> \<open>JsRegex\<close>: the regular expression of line 24 and \<^verbatim>\<open>RegExp.prototype.test\<close>,
    after the ECMAScript pattern semantics (continuation-passing matchers, \<open>Canonicalize\<close>
    for the \<^verbatim>\<open>i\<close> flag, start positions tried from 0, \<^verbatim>\<open>$\<close> at the end of input only):
    \<open>canonicalize\<close>, \<open>regex\<close>, \<open>rx_match\<close>, the search loop \<open>exec_loop\<close> of
    \<open>RegExpBuiltinExec\<close> (a \<^theory_text>\<open>partial_function (option)\<close>, proved to return:
    \<open>exec_loop_find\<close>), \<open>regexp_exec\<close>, \<open>regexp_test\<close>, \<open>image_regexp\<close>. Its lemmas
    show that on anchor-free patterns the matcher is a search over the finite set of words
    of the pattern (\<open>rx_match_words\<close>), hence that the image pattern accepts exactly the
    names with an allowed extension (\<open>image_regexp_test_iff\<close>, claim C2 is stated here),
    and that on every pattern the matcher agrees with the declarative semantics
    \<open>rx_sem\<close>, an inductive relation with one rule per construct (\<open>rx_match_sem\<close>).
  \<^item> \<open>Collation\<close>: \<^verbatim>\<open>String.prototype.localeCompare\<close> as ICU's root collation at
    tertiary strength on these code units, with the collation elements of the Default Unicode
    Collation Element Table (\<open>ducet_rows\<close>, \<open>collation_elements\<close>), its contraction
    of \<open>l\<close> with a middle dot (\<open>ducet_contractions\<close>, \<open>coll_units\<close>,
    \<open>string_elements\<close>), \<open>collation_key\<close>,
    \<open>locale_compare\<close>, on code units up to U+00FF only; the elements of non-ignorable characters determine the character
    (\<open>collation_key_inj\<close>: by linear checks of the table, its entries are distinct and
    no entry continues another with a primary weight, so the elements of a string decode
    uniquely), and on names of letters, digits and dots the element is a strictly monotone
    function of the case-folded code unit (\<open>collation_elements_alnum\<close>,
    \<open>collation_key_alnum\<close>).
  \<^item> \<open>JsSort\<close>: \<^verbatim>\<open>Array.prototype.sort\<close> with a comparator as a stable top-down merge
    sort (\<open>merge_cmp\<close>, \<open>js_sort\<close>); for comparators of a key it equals the library's
    stable \<open>sort_key\<close> (\<open>js_sort_compare_by\<close>), so that any stable sort of the engine
    (V8's TimSort included) gives the same array for the comparator of line 25.
  \<^item> \<open>Json\<close>: \<^verbatim>\<open>JSON.stringify\<close> on arrays of strings (\<open>json_escape\<close>,
    \<open>json_quote\<close>, \<open>json_stringify_array\<close>) and a decoder \<open>json_parse\<close>, a character-level
    state machine (\<open>json_run\<close> over \<open>json_state\<close>), with the round trip
    \<open>json_roundtrip\<close>, the exact size of each quoted string against the escape-length
    table \<open>escaped_length\<close> (\<open>json_quote_length_eq\<close>) and its printable code units (\<open>json_stringify_array_printable\<close>).
  \<^item> \<open>ImagesPlugin\<close>: directory entries (\<open>dirent\<close>, \<open>is_file\<close>), the file system as the
    result of \<^verbatim>\<open>readdirSync\<close> for each path (\<open>file_system\<close>, errors \<open>fs_error\<close> as the
    left summand), \<^verbatim>\<open>path.resolve\<close> (\<open>path_resolve\<close>, \<open>public_dir\<close>), the hooks
    (\<open>resolveId\<close>, \<open>list_images\<close>, \<open>load\<close>, the plugin object \<open>virtualImagesPlugin\<close>
    of the record \<open>vite_plugin\<close>, whose \<open>hot_update\<close> hook the code leaves undefined), the
    consumer's reading of the module (\<open>module_default\<close>) and the specification's listing
    \<open>spec_listing\<close>, which \<open>list_images\<close> computes (\<open>list_images_Inr\<close>); for names
    without ignorable code units the listing does not depend on the enumeration order
    (\<open>list_images_permutation\<close>). Claims C1, C3 and C4 are stated here.
  \<^item> \<open>SiteConfig\<close>: the exported configuration as the record \<open>site_config\<close> (with its
    navigation, sidebar and social-link records and the plugin list), the build tool's
    chain of plugin hooks (\<open>chain_resolve\<close>, \<open>chain_load\<close>, \<open>import_module\<close>: the first
    plugin that answers wins), and VitePress's \<^verbatim>\<open>withBase\<close> (\<open>with_base\<close>,
    \<open>site_base\<close>) that consumers apply to the URLs, and the browser's reading of the
    path of such a URL (\<open>url_path\<close>: the URL parser's trimming, removal of tabs and
    newlines, backslash as slash, and path ending at \<^verbatim>\<open>?\<close> or \<^verbatim>\<open>#\<close>).
  \<^item> \<open>ModuleCache\<close>: a session of the development server (or a build) through which the
    plugin is used, modelled from the specification's account of its invocation (sections
    4.1 and 5): the state \<open>dev_state\<close> (the directory and the module graph's cached code
    per resolved id), the events \<open>dev_event\<close> (an import, a change of a file, a
    restart), \<open>dev_import\<close> (answer from the cache, else load through the chain and
    cache), \<open>dev_step\<close> (a file change invalidates the modules the plugins' hot-update
    hooks name, \<open>invalidated\<close>; a restart empties the cache), \<open>dev_run\<close>, the reachable
    states \<open>dev_reach\<close> and the validity of the cache (\<open>cache_valid\<close>, an invariant by
    rule induction: \<open>dev_reach_valid\<close>).
  \<^item> \<open>Theme\<close>: the theme of \<^verbatim>\<open>theme/index.ts\<close> as the record \<open>theme\<close>; the Vue
    application as its registry of global components, \<open>enhance_app\<close> as the two
    \<^verbatim>\<open>app.component\<close> calls, \<open>layout\<close> as the default layout with no slot filled.
  \<^item> this theory: the properties of the program (claims C5..C28), each a theorem over the
    components' lemmas, with a witness where it has hypotheses.

  \<^bold>\<open>What the theorems show.\<close> The hook serves exactly the virtual module (C7); its
  export reads back as the specified URL list (C1, C8); the listing is the image names of
  the regular files (C2, C4, C10, C11, C12), sorted by the collation key (C3, C9), and an
  empty list on a read error (C6); names that compare equal keep the enumeration order
  (C5). The configuration makes the module importable through the build tool's plugin
  chain (C13) and never fails to (C19); the base prefixing of consumers keeps the exported
  URLs (C14); the public directory is the sibling of the configuration directory (C15).
  The module text has an exact size given by the escape table (C16), no control character
  (C17), and a default export of image URLs (C18). On ordinary names the comparator is
  case-folded code-unit order with lower case first (C20); numeric-like names are compared
  digit by digit (C22); base letters, then accents, then case decide the order (C23); and
  \<open>l\<close> with a middle dot sorts as one letter (C25), the last two whatever the enumeration
  order. The regular-expression test is the declarative pattern semantics searched over the
  start positions (C21), with a search loop that always ends (C24). An exported URL of a
  name with \<^verbatim>\<open>?\<close> or \<^verbatim>\<open>#\<close> does not name its file (C26). Over a server session the cache
  only ever serves the plugin's listing of some state of the directory (C27, by rule
  induction over the reachable states), and since the plugin names no module to invalidate,
  a change of the directory leaves the old listing in place (C28).

  \<^bold>\<open>Bounds and recursion.\<close> Every function is structurally recursive (on the input
  string, the pattern or the list) except \<open>js_sort\<close>, whose recursion on the two halves
  terminates by the length of the list, and the search loop \<open>exec_loop\<close> of \<^verbatim>\<open>RegExpBuiltinExec\<close>, which is written as the
  specification's loop with no termination argument (\<^theory_text>\<open>partial_function (option)\<close>)
  and shown to return by induction on the distance of \<open>lastIndex\<close> to the end of the
  input (C24); no fuel is needed.

  \<^bold>\<open>Not modelled.\<close> Code units above U+00FF (strings are lists of 8-bit \<open>char\<close>),
  and with them the collation of characters beyond Latin-1: combining marks and the
  canonical equivalence \<^verbatim>\<open>localeCompare\<close> must respect (\<^verbatim>\<open>\u00e9.png\<close> and
  \<^verbatim>\<open>e\u0301.png\<close> compare 0), so the comparator's properties hold of Latin-1 names;
  the order in which V8's TimSort calls the comparator (only its result, that of any
  stable sort, is modelled); the percent-encoding of URL paths and the server's decoding
  of them; VitePress's own use of the
  configuration records (navigation rendering); the Vue rendering of the theme and of the
  default layout; \<^verbatim>\<open>custom.css\<close> and the Vue component files, which are not part of
  the sources; of the build tool, hot module replacement, its transform pipeline and its
  own plugins (only the plugin chain, the module cache and its invalidation through
  \<^verbatim>\<open>handleHotUpdate\<close> are modelled). The pages that import \<^verbatim>\<open>virtual:images\<close> are not in the repository
  either (its sources are \<^verbatim>\<open>config.mts\<close> and \<^verbatim>\<open>theme/index.ts\<close> only): their
  reading of the module (\<open>module_default\<close>, \<open>json_parse\<close>, \<open>with_base\<close>,
  \<open>url_path\<close>) is modelled from the specification's consumer contract and the standards
  it relies on. The source lines no definition translates are module imports and comments.

  \<^bold>\<open>Findings.\<close> A symbolic link to an image is not listed, since
  \<^verbatim>\<open>Dirent.isFile()\<close> describes the link itself (C10, its witness); names that differ
  only in ignorable characters compare equal and are listed in enumeration order (C5, its
  witness), against the specification's claim of independence; a name ending in a line feed
  is rejected by \<^verbatim>\<open>$\<close> (C12); \<open>img10.png\<close> sorts before \<open>img2.png\<close>, where the
  specification promises a human-expected order of numeric-like names (C22); names are not
  percent-encoded, so the URL of \<open>a#1.png\<close> has the path \<open>/images/a\<close> (C26); an image
  added while the development server runs is not listed until it restarts, since the plugin
  defines no hot-update hook and the host answers imports from its cache, where the
  specification says every invocation re-reads the directory (C28).

  \<^bold>\<open>Witness data.\<close> \<open>example_dir\<close> (in \<open>ImagesPlugin\<close>) is the directory of the
  specification's example, \<open>hash_dir\<close> a directory holding \<^verbatim>\<open>a#1.png\<close>,
  \<open>ignorable_pair\<close> two names that differ only in U+0001, \<open>other_plugin\<close> a plugin that
  claims no module, \<open>accent_dir\<close> names that differ in case, accent and length,
  \<open>middle_dot_dir\<close> names with and without the contraction \<open>l\<middot>\<close>, \<open>one_image_fs\<close>
  a directory holding one image.

  \<^bold>\<open>Possible extensions.\<close> A characterisation of \<open>json_parse\<close> as the inverse of
  \<open>json_stringify_array\<close> on all accepted inputs.
\<close>

definition ignorable_pair :: "dirent list" where
  "ignorable_pair =
     [\<lparr>dirent_name = ''a.png'', dirent_kind = DT_File\<rparr>,
      \<lparr>dirent_name = [CHR ''a'', CHR 0x01] @ ''.png'', dirent_kind = DT_File\<rparr>]"




definition hash_dir :: "dirent list" where
  "hash_dir = [\<lparr>dirent_name = ''a#1.png'', dirent_kind = DT_File\<rparr>]"

definition other_plugin :: vite_plugin where
  "other_plugin = \<lparr>plugin_name = ''vite:resolve'', resolve_hook = (\<lambda>_. None),
                    load_hook = (\<lambda>_ _. None), hot_update = (\<lambda>_. [])\<rparr>"

text \<open>
  C5. Names that \<^verbatim>\<open>localeCompare\<close> finds equal keep the order in which the file
  system enumerates them: for every name \<open>m\<close>, the names of the listing that compare
  equal to \<open>m\<close> are those of the directory's image files, in the enumeration order. Two
  distinct names can compare equal (\<^verbatim>\<open>a.png\<close> and \<^verbatim>\<open>a\x01.png\<close>, U+0001 being
  completely ignorable), and then the listing depends on the enumeration order.
\<close>

theorem list_images_ties_in_enumeration_order:
  assumes "fs dir = Inr ds"
  shows "filter (\<lambda>n. locale_compare n m = 0) (list_images fs dir) =
         filter (\<lambda>n. locale_compare n m = 0) (filter has_image_extension (map dirent_name (filter is_file ds)))"
proof -
  have "(\<lambda>n. locale_compare n m = 0) = (\<lambda>n. collation_key n = collation_key m)"
    by (simp add: fun_eq_iff locale_compare_def)
  then show ?thesis using assms by (simp add: list_images_Inr spec_listing_def sort_key_stable)
qed

theorem list_images_ties_in_enumeration_order_witness:
  "filter (\<lambda>n. locale_compare n ''a.png'' = 0) (list_images (\<lambda>_. Inr ignorable_pair) ''/d'') =
     [''a.png'', [CHR ''a'', CHR 0x01] @ ''.png''] \<and>
   filter (\<lambda>n. locale_compare n ''a.png'' = 0) (list_images (\<lambda>_. Inr (rev ignorable_pair)) ''/d'') =
     [[CHR ''a'', CHR 0x01] @ ''.png'', ''a.png'']"
  using list_images_ties_in_enumeration_order [of "\<lambda>_. Inr ignorable_pair" "''/d''" ignorable_pair "''a.png''"]
    list_images_ties_in_enumeration_order [of "\<lambda>_. Inr (rev ignorable_pair)" "''/d''" "rev ignorable_pair" "''a.png''"]
  by (simp add: ignorable_pair_def locale_compare_def model_defs)


text \<open>
  C6. Fail open: when reading the directory raises, \<^verbatim>\<open>load\<close> still returns a
  module, whose default export is the empty array.
\<close>

theorem load_fails_open:
  assumes "fs (public_dir cwd dirname) = Inl e"
  shows "load cwd dirname fs RESOLVED_VIRTUAL_ID = Some ''export default []''"
  using assms by (simp add: load_resolved list_images_Inl image_urls_def
      json_stringify_array_def export_default_def)

theorem load_fails_open_witness:
  "load ''/home'' ''/site/docs/.vitepress'' (\<lambda>_. Inl ENOENT) RESOLVED_VIRTUAL_ID = Some ''export default []''"
  using load_fails_open [of "\<lambda>_. Inl ENOENT" "''/home''" "''/site/docs/.vitepress''" ENOENT] by simp


text \<open>
  C7. Resolving and then loading a module name yields a module exactly for
  \<^verbatim>\<open>virtual:images\<close>; the resolved name (with its NUL prefix) is not resolved again.
\<close>

theorem hooks_serve_only_virtual_id:
  "((\<exists>m. Option.bind (resolveId mid) (load cwd dirname fs) = Some m) \<longleftrightarrow> mid = VIRTUAL_ID) \<and>
   resolveId RESOLVED_VIRTUAL_ID = None"
proof -
  have "RESOLVED_VIRTUAL_ID \<noteq> VIRTUAL_ID"
    by (simp add: RESOLVED_VIRTUAL_ID_def)
  then show ?thesis by (simp add: resolveId_def load_def)
qed


text \<open>
  C8. The generated module text round-trips: reading the default export of
  \<^verbatim>\<open>export default\<close> followed by \<^verbatim>\<open>JSON.stringify(xs)\<close> gives back \<open>xs\<close>, for every
  list of strings (quotes, backslashes and control characters included).
\<close>

theorem module_roundtrip:
  "module_default (export_default (json_stringify_array xs)) = Some xs"
  by (simp add: json_roundtrip)


text \<open>
  C9. The sort of line 25 (\<^verbatim>\<open>Array.prototype.sort\<close> with the
  \<^verbatim>\<open>localeCompare\<close> comparator) is the stable sort by the collation key.
\<close>

theorem sort_of_names_is_stable_sort:
  "js_sort locale_compare xs = sort_key collation_key xs"
  by (simp add: locale_compare_key_cmp js_sort_compare_by)


text \<open>
  C10. Adding an entry that is not a regular file with an image name (a file with another
  extension, a directory, or a symbolic link even to an image) anywhere in the directory
  leaves the listing unchanged.
\<close>

theorem list_images_ignore_other_entry:
  assumes "fs dir = Inr (xs @ ys)" and "fs' dir = Inr (xs @ d # ys)"
    and "\<not> (is_file d \<and> has_image_extension (dirent_name d))"
  shows "list_images fs' dir = list_images fs dir"
  using assms by (auto simp: list_images_Inr spec_listing_def)

theorem list_images_ignore_other_entry_witness:
  "list_images (\<lambda>_. Inr (example_dir @ [\<lparr>dirent_name = ''cover.png'', dirent_kind = DT_Link\<rparr>])) ''/d'' =
   list_images (\<lambda>_. Inr example_dir) ''/d''"
  using list_images_ignore_other_entry [of "\<lambda>_. Inr example_dir" "''/d''" example_dir "[]"
      "\<lambda>_. Inr (example_dir @ [\<lparr>dirent_name = ''cover.png'', dirent_kind = DT_Link\<rparr>])"
      "\<lparr>dirent_name = ''cover.png'', dirent_kind = DT_Link\<rparr>"]
  by (simp add: is_file_def)


text \<open>
  C11. The image filter is case-insensitive: names that agree after case folding are
  accepted or rejected together.
\<close>

theorem image_filter_case_insensitive:
  assumes "map canonicalize a = map canonicalize b"
  shows "regexp_test image_regexp a = regexp_test image_regexp b"
  using assms by (simp add: image_regexp_test_iff has_image_extension_def)

theorem image_filter_case_insensitive_witness:
  "map canonicalize ''x.PnG'' = map canonicalize ''x.png'' \<and>
   regexp_test image_regexp ''x.PnG'' = regexp_test image_regexp ''x.png''"
  using image_filter_case_insensitive [of "''x.PnG''" "''x.png''"] by (simp add: canonicalize_def)


text \<open>
  C12. \<^verbatim>\<open>$\<close> without the \<^verbatim>\<open>m\<close> flag matches only at the end of the name: a name
  ending in a line feed is never accepted.
\<close>

theorem image_filter_rejects_trailing_newline:
  "\<not> regexp_test image_regexp (s @ [CHR 0x0A])"
proof
  assume "regexp_test image_regexp (s @ [CHR 0x0A])"
  then obtain e p where e: "e \<in> set image_extensions"
    and eq: "map canonicalize (s @ [CHR 0x0A]) = p @ map canonicalize (CHR ''.'' # e)"
    by (auto simp: image_regexp_test_iff has_image_extension_def suffix_def)
  from eq have "last (map canonicalize (s @ [CHR 0x0A])) = last (p @ map canonicalize (CHR ''.'' # e))"
    by simp
  with e show False by (auto simp: image_extensions_def canonicalize_def)
qed


text \<open>
  C13. The configuration wires the plugin into the build: importing
  \<^verbatim>\<open>virtual:images\<close> through any plugin chain that contains the configured
  \<^verbatim>\<open>vite.plugins\<close>, after plugins that do not claim the name, gives the module that the
  plugin's \<^verbatim>\<open>load\<close> hook generates.
\<close>

theorem config_serves_virtual_images:
  assumes "\<forall>p\<in>set pre. resolve_hook p VIRTUAL_ID = None \<and> load_hook p fs RESOLVED_VIRTUAL_ID = None"
  shows "import_module (pre @ vite_plugins (site_config cwd dirname) @ post) fs VIRTUAL_ID =
         load cwd dirname fs RESOLVED_VIRTUAL_ID"
proof -
  have "RESOLVED_VIRTUAL_ID \<noteq> VIRTUAL_ID" by (simp add: RESOLVED_VIRTUAL_ID_def)
  with assms show ?thesis
    by (simp add: import_module_def chain_resolve_append chain_load_append site_config_def
        virtualImagesPlugin_def resolveId_def load_def)
qed

theorem config_serves_virtual_images_witness:
  "import_module ([other_plugin] @ vite_plugins (site_config ''/home'' ''/site/docs/.vitepress'') @ [])
     (\<lambda>_. Inl EACCES) VIRTUAL_ID = Some ''export default []''"
  using config_serves_virtual_images [of "[other_plugin]" "\<lambda>_. Inl EACCES" "''/home''"
      "''/site/docs/.vitepress''" "[]"]
  by (simp add: other_plugin_def load_def list_images_def image_urls_def json_stringify_array_def
      export_default_def)


text \<open>
  C14. The consumer's prefixing keeps the exported URLs valid: for every directory whose
  entry names have no slash (as \<^verbatim>\<open>readdirSync\<close> returns them), \<^verbatim>\<open>withBase\<close> with the
  configured base (none, so \<^verbatim>\<open>/\<close>) returns each exported URL unchanged, and with the
  commented-out base \<^verbatim>\<open>/beauty/\<close> of line 41 it returns \<^verbatim>\<open>/beauty\<close> followed by the URL.
\<close>

theorem consumer_url_with_base:
  assumes "fs dir = Inr ds" and "list_all (\<lambda>d. CHR ''/'' \<notin> set (dirent_name d)) ds"
  shows "map (with_base (site_base (site_config cwd dirname))) (image_urls (list_images fs dir)) =
           image_urls (list_images fs dir) \<and>
         map (with_base ''/beauty/'') (image_urls (list_images fs dir)) =
           map (\<lambda>u. ''/beauty'' @ u) (image_urls (list_images fs dir))"
proof -
  have f: "CHR ''/'' \<notin> set f" if "f \<in> set (list_images fs dir)" for f
    using that assms by (auto simp: list_images_set list_all_iff)
  have "with_base (site_base (site_config cwd dirname)) (''/images/'' @ f) = ''/images/'' @ f \<and>
        with_base ''/beauty/'' (''/images/'' @ f) = ''/beauty'' @ ''/images/'' @ f"
    if "f \<in> set (list_images fs dir)" for f
    using f [OF that] by (simp add: with_base_def site_base_def site_config_def collapse_slashes_no_slash)
  then show ?thesis by (simp add: image_urls_def)
qed

theorem consumer_url_with_base_witness:
  "(\<lambda>_. Inr example_dir) ''/d'' = (Inr example_dir :: fs_error + dirent list) \<and>
   list_all (\<lambda>d. CHR ''/'' \<notin> set (dirent_name d)) example_dir \<and>
   map (with_base (site_base (site_config ''/home'' ''/d''))) (image_urls (list_images (\<lambda>_. Inr example_dir) ''/d'')) =
     image_urls (list_images (\<lambda>_. Inr example_dir) ''/d'') \<and>
   map (with_base ''/beauty/'') (image_urls (list_images (\<lambda>_. Inr example_dir) ''/d'')) =
     map (\<lambda>u. ''/beauty'' @ u) (image_urls (list_images (\<lambda>_. Inr example_dir) ''/d''))"
proof -
  have h1: "(\<lambda>_. Inr example_dir) ''/d'' = (Inr example_dir :: fs_error + dirent list)" by simp
  have h2: "list_all (\<lambda>d. CHR ''/'' \<notin> set (dirent_name d)) example_dir" by (simp add: example_dir_def)
  show ?thesis using h1 h2 consumer_url_with_base [OF h1 h2, of "''/home''" "''/d''"] by blast
qed


text \<open>
  C15. The directory the hook reads is the sibling \<^verbatim>\<open>public/images\<close> of the
  configuration directory: for every absolute \<^verbatim>\<open>__dirname\<close> in normal form (segments
  that are not empty, \<^verbatim>\<open>.\<close> or \<^verbatim>\<open>..\<close>), \<^verbatim>\<open>path.resolve(__dirname,
  '../public/images')\<close> replaces its last segment by \<^verbatim>\<open>public/images\<close>, whatever the
  working directory.
\<close>

theorem public_dir_is_sibling:
  assumes "segs \<noteq> []" and "\<forall>seg\<in>set segs. plain_segment seg"
  shows "public_dir cwd (''/'' @ join_with ''/'' segs) =
         ''/'' @ join_with ''/'' (butlast segs @ [''public'', ''images''])"
proof -
  have slash: "\<forall>seg\<in>set segs. CHR ''/'' \<notin> set seg"
    using assms(2) by (auto simp: plain_segment_def)
  have r: "resolve_from (rev [''/'' @ join_with ''/'' segs, ''../public/images''] @ [cwd]) [] =
           ''/'' @ join_with ''/'' segs @ ''/'' @ ''../public/images/''"
    by simp
  have str: "''/'' @ join_with ''/'' segs @ ''/'' @ ''../public/images/'' =
      [] @ CHR ''/'' # (join_with ''/'' segs @ CHR ''/'' # (''..'' @ CHR ''/'' #
        (''public'' @ CHR ''/'' # (''images'' @ CHR ''/'' # []))))"
    by simp
  have j: "split_path (join_with ''/'' segs) = segs"
    using assms(1) slash by (cases segs) (simp_all add: split_path_join)
  have sp: "split_path (''/'' @ join_with ''/'' segs @ ''/'' @ ''../public/images/'') =
            [[]] @ segs @ [''..'', ''public'', ''images'', []]"
    unfolding str by (simp only: split_path_slash j) simp
  obtain init l where segs: "segs = init @ [l]"
    using assms(1) by (metis append_butlast_last_id)
  have n: "normalize_segments [] ([[]] @ segs @ [''..'', ''public'', ''images'', []]) =
           butlast segs @ [''public'', ''images'']"
    using assms(2) by (simp add: normalize_plain segs) (simp add: plain_segment_def)
  show ?thesis
    unfolding public_dir_def path_resolve_def r sp n ..
qed

theorem public_dir_is_sibling_witness:
  "public_dir ''/home'' ''/srv/site/docs/.vitepress'' = ''/srv/site/docs/public/images''"
  using public_dir_is_sibling [of "[''srv'', ''site'', ''docs'', ''.vitepress'']" "''/home''"]
  by (simp add: plain_segment_def)


text \<open>
  C16. The exact size of the array literal \<^verbatim>\<open>JSON.stringify\<close> writes: two brackets, a
  comma between two names, and for each name two quotes and, per code unit, two code units
  for a short escape, six for a \<^verbatim>\<open>\u\<close> escape and one otherwise.
\<close>

theorem module_text_length:
  "length (json_stringify_array xs) = 2 + (length xs - 1) + (\<Sum>x\<leftarrow>xs. 2 + (\<Sum>c\<leftarrow>x. escaped_length c))"
proof (cases "xs = []")
  case True
  then show ?thesis by (simp add: json_stringify_array_def)
next
  case False
  then have "length (json_stringify_array xs) = 1 + (\<Sum>x\<leftarrow>xs. length (json_quote x) + 1)"
    using join_with_length [of "map json_quote xs" "'',''"]
    by (simp add: json_stringify_array_def comp_def)
  also have "\<dots> = 1 + length xs + (\<Sum>x\<leftarrow>xs. 2 + (\<Sum>c\<leftarrow>x. escaped_length c))"
    by (simp add: json_quote_length_eq sum_list_Suc_shift)
  finally show ?thesis using False by (cases xs) simp_all
qed


text \<open>
  C17. Whatever the directory holds, the text the \<^verbatim>\<open>load\<close> hook returns has no
  control character: every code unit is at or above U+0020, so the module is a single
  line even for file names with line breaks or other control characters.
\<close>

theorem load_module_printable:
  "pred_option (list_all (\<lambda>c. 32 \<le> code c)) (load cwd dirname fs mid)"
  by (simp add: load_def export_default_def json_stringify_array_printable)


text \<open>
  C18. Every module the \<^verbatim>\<open>load\<close> hook returns has a default export, a list of
  strings each of the form \<^verbatim>\<open>/images/<name>\<close> with \<open><name>\<close> ending in one of the
  allowed extensions (ignoring case), on every file system, the failing ones included.
\<close>

theorem exported_urls_are_images:
  "pred_option (\<lambda>m. \<exists>urls. module_default m = Some urls \<and>
      list_all (\<lambda>u. \<exists>n. u = ''/images/'' @ n \<and> has_image_extension n) urls)
    (load cwd dirname fs mid)"
  by (auto simp: load_def json_roundtrip image_urls_def list_all_iff list_images_sum spec_listing_def
      split: sum.split)


text \<open>
  C19. Importing \<^verbatim>\<open>virtual:images\<close> through the configured plugins always
  succeeds: there is a module, and it has a default export, whatever the file system
  answers.
\<close>

theorem import_virtual_images_total:
  "\<exists>m urls. import_module (vite_plugins (site_config cwd dirname)) fs VIRTUAL_ID = Some m \<and>
            module_default m = Some urls"
  by (simp add: import_site_plugins load_resolved json_roundtrip)


text \<open>
  C20. On names made of ASCII letters, digits and dots (the usual image names) the
  comparator is the lexicographic order of the code units with upper case folded to lower
  case (so \<open>.\<close> before digits before letters), and where the folded names agree, the
  order of the case patterns with lower case first: \<open>Banana.png\<close> sorts after
  \<open>apple.png\<close>.
\<close>

theorem locale_compare_ascii_order:
  assumes "list_all alnum_dot a" and "list_all alnum_dot b"
  shows "locale_compare a b =
         compare_by (map fold_code a, map is_upper a) (map fold_code b, map is_upper b)"
proof -
  have fa: "set (map fold_code a) \<subseteq> set alnum_fold_codes"
    and fb: "set (map fold_code b) \<subseteq> set alnum_fold_codes"
    using assms by (auto simp: list_all_iff fold_code_alnum)
  note p = map_less_map_mono [OF primary_of_fold_mono fa fb] map_eq_map_mono [OF primary_of_fold_mono fa fb]
  note t = map_less_map_mono [OF tertiary_mono subset_UNIV subset_UNIV]
    map_eq_map_mono [OF tertiary_mono subset_UNIV subset_UNIV]
  have r: "map fold_code a = map fold_code b \<Longrightarrow> replicate (length a) (32::nat) = replicate (length b) 32"
    by (metis length_map)
  show ?thesis
    unfolding locale_compare_def collation_key_alnum [OF assms(1)] collation_key_alnum [OF assms(2)]
    by (rule compare_by_cong) (use r in \<open>auto simp only: less_prod_def' fst_conv snd_conv prod.inject p t\<close>)
qed

theorem locale_compare_ascii_order_witness:
  "list_all alnum_dot ''Banana.png'' \<and> list_all alnum_dot ''apple.png'' \<and>
   locale_compare ''Banana.png'' ''apple.png'' =
   compare_by (map fold_code ''Banana.png'', map is_upper ''Banana.png'')
     (map fold_code ''apple.png'', map is_upper ''apple.png'') \<and>
   locale_compare ''Banana.png'' ''apple.png'' = 1"
  using locale_compare_ascii_order [of "''Banana.png''" "''apple.png''"]
  by (simp add: alnum_dot_def fold_code_def is_upper_def compare_by_def)


text \<open>
  C21. \<^verbatim>\<open>RegExp.prototype.test\<close>, with its backtracking matcher and its loop over
  start positions, accepts a string exactly when the pattern matches some substring
  starting at or before the end of the input, in the declarative semantics
  \<open>rx_sem\<close>.
\<close>

theorem regexp_test_sem:
  "regexp_test re s \<longleftrightarrow> (\<exists>i j. i \<le> length s \<and> rx_sem (ignore_case re) s (pattern re) i j)"
  by (auto simp: regexp_test_list_ex list_ex_iff rx_match_sem less_Suc_eq_le simp del: upt_Suc)


text \<open>
  C22. The comparator does not order numeric-like names by their numbers: on names of
  letters, digits and dots, a name with \<open>10\<close> sorts before the same name with \<open>2\<close>
  (\<open>img10.png\<close> before \<open>img2.png\<close>), since \<^verbatim>\<open>localeCompare\<close> is called without
  the \<^verbatim>\<open>numeric\<close> option and compares digit by digit.
\<close>

theorem locale_compare_not_numeric:
  assumes "list_all alnum_dot p" and "list_all alnum_dot e"
  shows "locale_compare (p @ ''10'' @ e) (p @ ''2'' @ e) = -1"
proof -
  have d: "list_all alnum_dot ''10''" "list_all alnum_dot ''2''" by (simp_all add: alnum_dot_def)
  have "fst (collation_key (p @ ''10'' @ e)) < fst (collation_key (p @ ''2'' @ e))"
    using assms d
    by (simp add: collation_key_alnum less_append_same fold_code_def primary_of_fold_def
        ducet_entry_def ducet_rows_def)
  then show ?thesis
    by (simp add: locale_compare_def compare_by_def less_prod_def')
qed

theorem locale_compare_not_numeric_witness:
  "list_all alnum_dot ''img'' \<and> list_all alnum_dot ''.png'' \<and>
   locale_compare ''img10.png'' ''img2.png'' = -1"
  using locale_compare_not_numeric [of "''img''" "''.png''"] by (simp add: alnum_dot_def)





text \<open>
  C24. The search loop of \<^verbatim>\<open>RegExpBuiltinExec\<close> that \<^verbatim>\<open>test\<close> runs always ends, on
  every pattern and input: it returns the first position, from 0 to the length of the
  input, at which the matcher succeeds, or \<^verbatim>\<open>null\<close> when there is none.
\<close>

theorem regexp_exec_terminates:
  "regexp_exec re s =
   Some (find (rx_match (ignore_case re) s (pattern re) (\<lambda>_. True)) [0..<Suc (length s)])"
  by (simp add: regexp_exec_def exec_loop_find)





text \<open>
  C26. The exported URLs are the file names behind \<^verbatim>\<open>/images/\<close>, not percent-encoded: when
  the directory holds a regular image file whose name contains \<^verbatim>\<open>?\<close> or \<^verbatim>\<open>#\<close> (a
  name the filter accepts, such as \<^verbatim>\<open>a#1.png\<close>), the path a browser reads from its URL
  is shorter than the URL (\<^verbatim>\<open>/images/a\<close>), so the exported list names another file.
\<close>

theorem image_urls_path:
  assumes "fs dir = Inr ds" and "d \<in> set ds" and "is_file d" and "has_image_extension (dirent_name d)"
    and "CHR ''?'' \<in> set (dirent_name d) \<or> CHR ''#'' \<in> set (dirent_name d)"
  shows "map url_path (image_urls (list_images fs dir)) \<noteq> image_urls (list_images fs dir)"
proof
  let ?u = "''/images/'' @ dirent_name d"
  assume eq: "map url_path (image_urls (list_images fs dir)) = image_urls (list_images fs dir)"
  have "dirent_name d \<in> set (list_images fs dir)"
    using assms(1-4) by (auto simp: list_images_set)
  then have "?u \<in> set (image_urls (list_images fs dir))" by (simp add: image_urls_def)
  with eq have "url_path ?u = ?u" by (rule map_fixed_elem)
  moreover have "length (url_path ?u) < length ?u" using assms(5) by (intro url_path_shorter) auto
  ultimately show False by simp
qed

theorem image_urls_path_witness:
  "(\<lambda>_. Inr hash_dir) ''/d'' = (Inr hash_dir :: fs_error + dirent list) \<and>
   hd hash_dir \<in> set hash_dir \<and> is_file (hd hash_dir) \<and> has_image_extension (dirent_name (hd hash_dir)) \<and>
   (CHR ''?'' \<in> set (dirent_name (hd hash_dir)) \<or> CHR ''#'' \<in> set (dirent_name (hd hash_dir))) \<and>
   map url_path (image_urls (list_images (\<lambda>_. Inr hash_dir) ''/d'')) \<noteq> image_urls (list_images (\<lambda>_. Inr hash_dir) ''/d'')"
proof -
  have h: "(\<lambda>_. Inr hash_dir) ''/d'' = (Inr hash_dir :: fs_error + dirent list)"
    "hd hash_dir \<in> set hash_dir" "is_file (hd hash_dir)" "has_image_extension (dirent_name (hd hash_dir))"
    "CHR ''?'' \<in> set (dirent_name (hd hash_dir)) \<or> CHR ''#'' \<in> set (dirent_name (hd hash_dir))"
    by (simp_all add: hash_dir_def model_defs)
  show ?thesis using h image_urls_path [OF h] by blast
qed





text \<open>
  C28. The plugin object defines no \<^verbatim>\<open>handleHotUpdate\<close> hook, so a change of the
  directory invalidates nothing: importing \<^verbatim>\<open>virtual:images\<close>, changing any file and
  importing it again answers the listing of the old directory both times. An image added
  while the development server runs is not listed until it restarts.
\<close>

theorem dev_import_stale:
  "fst (dev_run (vite_plugins (site_config cwd dirname)) (dev_start fs)
          [Import VIRTUAL_ID, Change_fs path fs', Import VIRTUAL_ID]) =
   [load cwd dirname fs RESOLVED_VIRTUAL_ID, None, load cwd dirname fs RESOLVED_VIRTUAL_ID]"
proof -
  let ?ps = "vite_plugins (site_config cwd dirname)"
  obtain c where c: "load cwd dirname fs RESOLVED_VIRTUAL_ID = Some c" by (simp add: load_def)
  let ?st1 = "(dev_start fs)\<lparr>module_cache := [RESOLVED_VIRTUAL_ID \<mapsto> c]\<rparr>"
  from c have d: "dev_import ?ps (dev_start fs) VIRTUAL_ID = (Some c, ?st1)"
    by (simp add: dev_import_def chain_resolve_site chain_load_site dev_start_def)
  from c d show ?thesis by (simp add: invalidated_site dev_import_def chain_resolve_site)
qed

end
